theory Spec2Isabelle
  imports Main
begin

section \<open>JavaScript values used by the authentication core\<close>

text \<open>
  Optional string fields (\<^verbatim>\<open>string | null | undefined\<close>) are \<open>string option\<close>.
  JavaScript treats \<^verbatim>\<open>undefined\<close>, \<^verbatim>\<open>null\<close> and the empty string as falsy;
  \<open>truthy\<close> is the test \<^verbatim>\<open>!!s\<close> and \<open>js_or\<close> is \<^verbatim>\<open>a || b\<close>.
  A string is the list of its code units, so \<open>length\<close> is \<^verbatim>\<open>.length\<close>.
  Timestamps are milliseconds since the epoch, as \<^verbatim>\<open>Date.now()\<close> returns them.
\<close>

definition truthy :: "string option \<Rightarrow> bool" where
  "truthy s = (case s of None \<Rightarrow> False | Some v \<Rightarrow> v \<noteq> [])"

definition js_or :: "string option \<Rightarrow> string option \<Rightarrow> string option" where
  "js_or a b = (if truthy a then a else b)"

text \<open>
  \<^verbatim>\<open>String.prototype.toLowerCase\<close>. The characters of the model are the code units
  U+0000 to U+00FF. Among these the upper-case letters are A to Z, U+00C0 to U+00D6 and
  U+00D8 to U+00DE, and the lower-case form of each lies 32 code units above it.
\<close>

definition upper_letters :: string where
  "upper_letters =
     ''ABCDEFGHIJKLMNOPQRSTUVWXYZ'' @
     [CHR 0xC0, CHR 0xC1, CHR 0xC2, CHR 0xC3, CHR 0xC4, CHR 0xC5,
         CHR 0xC6, CHR 0xC7, CHR 0xC8, CHR 0xC9, CHR 0xCA, CHR 0xCB,
         CHR 0xCC, CHR 0xCD, CHR 0xCE, CHR 0xCF, CHR 0xD0, CHR 0xD1,
         CHR 0xD2, CHR 0xD3, CHR 0xD4, CHR 0xD5, CHR 0xD6, CHR 0xD8,
         CHR 0xD9, CHR 0xDA, CHR 0xDB, CHR 0xDC, CHR 0xDD, CHR 0xDE]"

definition lower_letters :: string where
  "lower_letters =
     ''abcdefghijklmnopqrstuvwxyz'' @
     [CHR 0xE0, CHR 0xE1, CHR 0xE2, CHR 0xE3, CHR 0xE4, CHR 0xE5,
         CHR 0xE6, CHR 0xE7, CHR 0xE8, CHR 0xE9, CHR 0xEA, CHR 0xEB,
         CHR 0xEC, CHR 0xED, CHR 0xEE, CHR 0xEF, CHR 0xF0, CHR 0xF1,
         CHR 0xF2, CHR 0xF3, CHR 0xF4, CHR 0xF5, CHR 0xF6, CHR 0xF8,
         CHR 0xF9, CHR 0xFA, CHR 0xFB, CHR 0xFC, CHR 0xFD, CHR 0xFE]"

definition lower_char :: "char \<Rightarrow> char" where
  "lower_char c =
     (case map_of (zip upper_letters lower_letters) c of
        Some l \<Rightarrow> l
      | None \<Rightarrow> c)"

definition toLowerCase :: "string \<Rightarrow> string" where
  "toLowerCase s = map lower_char s"

section \<open>Anti-CSRF state of the Microsoft sign-in flow\<close>

text \<open>
  \<^verbatim>\<open>pendingStates = new Map<string, { createdAt: number; redirectTo?: string }>()\<close>
\<close>

record pending_state =
  createdAt :: int
  redirectTo :: "string option"

type_synonym pendingStates = "string \<rightharpoonup> pending_state"

definition STATE_EXPIRY_MS :: int where
  "STATE_EXPIRY_MS = 10 * 60 * 1000"

text \<open>
  \<^verbatim>\<open>validateState(state)\<close>, with \<open>now\<close> the value of \<^verbatim>\<open>Date.now()\<close>; the
  result is the returned boolean and the map after the call.
\<close>

definition validateState :: "string \<Rightarrow> int \<Rightarrow> pendingStates \<Rightarrow> bool \<times> pendingStates" where
  "validateState state now ps =
     (case ps state of
        None \<Rightarrow> (False, ps)
      | Some pendingState \<Rightarrow>
          if now - createdAt pendingState > STATE_EXPIRY_MS
          then (False, ps(state := None))
          else (True, ps(state := None)))"

section \<open>The credential store\<close>

text \<open>
  The tables of \<^verbatim>\<open>shared/models/auth\<close> and \<^verbatim>\<open>crm_users\<close> of
  \<^verbatim>\<open>shared/schema.ts\<close>. A table is the list of its rows; a query with
  \<^verbatim>\<open>.limit(1)\<close> returns the first matching row. Nullable columns are options.
  Columns that the functions below neither read nor write are left out: the profile
  image of a user, the creation time of a token, the generated ids and timestamps of
  the settings, audit and CRM rows, the Microsoft client and tenant of the settings, and
  the team of a CRM profile.
\<close>

datatype auth_provider = Local | Microsoft | Replit

record user =
  user_id :: string
  user_email :: "string option"
  user_firstName :: "string option"
  user_lastName :: "string option"
  authProvider :: auth_provider
  passwordHash :: "string option"
  microsoftUserId :: "string option"
  microsoftTenantId :: "string option"
  isDisabled :: bool
  emailVerified :: bool
  user_createdAt :: "int option"
  user_updatedAt :: "int option"
  lastLoginAt :: "int option"

record reset_token =
  token_id :: string
  token_userId :: string
  token :: string
  expiresAt :: int
  usedAt :: "int option"

record sso_settings =
  allowedTenantIds :: "string list option"
  allowedEmailDomains :: "string list option"
  defaultRoleForSso :: "string option"
  autoProvisionUsers :: bool
  ssoOnly :: bool

record audit_event =
  ev_userId :: "string option"
  ev_email :: "string option"
  action :: string
  provider :: "auth_provider option"
  ipAddress :: "string option"
  userAgent :: "string option"
  success :: bool
  failureReason :: "string option"
  metadata :: "(string \<times> string) option"

datatype user_role = Admin | Manager | Sales

record crm_user =
  authUserId :: string
  role :: user_role
  crm_firstName :: "string option"
  crm_lastName :: "string option"
  crm_email :: "string option"

record db =
  users :: "user list"
  passwordResetTokens :: "reset_token list"
  ssoSettings :: "sso_settings list"
  authAuditLog :: "audit_event list"
  crmUsers :: "crm_user list"

text \<open>
  \<^verbatim>\<open>logAuditEvent\<close> inserts one row into \<^verbatim>\<open>auth_audit_log\<close>. The source wraps the
  insert in \<^verbatim>\<open>try/catch\<close>, so the caller continues in the same way whether or not
  the row was written; the model records the emitted event.
\<close>

definition logAuditEvent :: "audit_event \<Rightarrow> db \<Rightarrow> db" where
  "logAuditEvent data d = d\<lparr>authAuditLog := authAuditLog d @ [data]\<rparr>"

section \<open>Local login\<close>

text \<open>
  \<^verbatim>\<open>AuthService.loginLocalUser(email, password, ipAddress, userAgent)\<close>. The bcrypt
  comparison \<^verbatim>\<open>verifyPassword\<close> is a parameter and \<open>now\<close> is \<^verbatim>\<open>new Date()\<close>.
  The result is \<open>Inl error\<close> for \<^verbatim>\<open>{ success: false, error }\<close> and \<open>Inr user\<close> for
  \<^verbatim>\<open>{ success: true, user }\<close>, paired with the store after the call.
\<close>

definition loginLocalUser ::
  "(string \<Rightarrow> string \<Rightarrow> bool) \<Rightarrow> int \<Rightarrow> string \<Rightarrow> string \<Rightarrow> string option \<Rightarrow> string option
     \<Rightarrow> db \<Rightarrow> (string + user) \<times> db" where
  "loginLocalUser verifyPassword now email password ip ua d =
     (case find (\<lambda>u. user_email u = Some (toLowerCase email)) (users d) of
        None \<Rightarrow>
          (Inl ''Invalid email or password'',
           logAuditEvent
             \<lparr>ev_userId = None, ev_email = Some email, action = ''failed_login'',
              provider = Some Local, ipAddress = ip, userAgent = ua, success = False,
              failureReason = Some ''User not found'', metadata = None\<rparr> d)
      | Some usr \<Rightarrow>
          if isDisabled usr then
            (Inl ''Account is disabled. Contact your administrator.'',
             logAuditEvent
               \<lparr>ev_userId = Some (user_id usr), ev_email = Some email, action = ''failed_login'',
                provider = Some Local, ipAddress = ip, userAgent = ua, success = False,
                failureReason = Some ''Account disabled'', metadata = None\<rparr> d)
          else if \<not> truthy (passwordHash usr) then
            (Inl ''This account uses Microsoft SSO. Please sign in with Microsoft.'',
             logAuditEvent
               \<lparr>ev_userId = Some (user_id usr), ev_email = Some email, action = ''failed_login'',
                provider = Some Local, ipAddress = ip, userAgent = ua, success = False,
                failureReason = Some ''No password set (SSO account)'', metadata = None\<rparr> d)
          else if \<not> verifyPassword password (the (passwordHash usr)) then
            (Inl ''Invalid email or password'',
             logAuditEvent
               \<lparr>ev_userId = Some (user_id usr), ev_email = Some email, action = ''failed_login'',
                provider = Some Local, ipAddress = ip, userAgent = ua, success = False,
                failureReason = Some ''Invalid password'', metadata = None\<rparr> d)
          else
            (Inr usr,
             logAuditEvent
               \<lparr>ev_userId = Some (user_id usr), ev_email = user_email usr, action = ''login'',
                provider = Some Local, ipAddress = ip, userAgent = ua, success = True,
                failureReason = None, metadata = None\<rparr>
               (d\<lparr>users := map (\<lambda>u. if user_id u = user_id usr
                                          then u\<lparr>lastLoginAt := Some now\<rparr> else u) (users d)\<rparr>)))"

section \<open>Password reset\<close>

text \<open>
  \<^verbatim>\<open>AuthService.resetPassword(token, newPassword)\<close> first reads the token row and
  validates it (\<open>resetPassword_read\<close>: the \<^verbatim>\<open>select\<close> and the four checks), then,
  after awaiting the bcrypt hash, issues its writes (\<open>resetPassword_write\<close>: the two
  \<^verbatim>\<open>update\<close> statements and the audit event). \<open>hashPassword\<close> stands for bcrypt
  with twelve rounds and \<open>now\<close> for \<^verbatim>\<open>new Date()\<close>. A \<^verbatim>\<open>Date\<close> object is always
  truthy, so \<^verbatim>\<open>if (resetToken.usedAt)\<close> tests the column for being non-null.
\<close>

definition resetPassword_read :: "int \<Rightarrow> string \<Rightarrow> string \<Rightarrow> db \<Rightarrow> string + reset_token" where
  "resetPassword_read now tok newPassword d =
     (case find (\<lambda>t. token t = tok) (passwordResetTokens d) of
        None \<Rightarrow> Inl ''Invalid or expired reset token''
      | Some resetToken \<Rightarrow>
          if usedAt resetToken \<noteq> None then Inl ''This reset token has already been used''
          else if now > expiresAt resetToken then Inl ''This reset token has expired''
          else if length newPassword < 8 then Inl ''Password must be at least 8 characters''
          else Inr resetToken)"

definition resetPassword_write ::
  "(string \<Rightarrow> string) \<Rightarrow> int \<Rightarrow> reset_token \<Rightarrow> string \<Rightarrow> db \<Rightarrow> db" where
  "resetPassword_write hashPassword now resetToken newPassword d =
     logAuditEvent
       \<lparr>ev_userId = Some (token_userId resetToken), ev_email = None,
        action = ''password_reset_complete'', provider = Some Local, ipAddress = None,
        userAgent = None, success = True, failureReason = None, metadata = None\<rparr>
       (d\<lparr>users :=
            map (\<lambda>u. if user_id u = token_userId resetToken
                      then u\<lparr>passwordHash := Some (hashPassword newPassword),
                             user_updatedAt := Some now\<rparr>
                      else u) (users d),
          passwordResetTokens :=
            map (\<lambda>t. if token_id t = token_id resetToken then t\<lparr>usedAt := Some now\<rparr> else t)
              (passwordResetTokens d)\<rparr>)"

definition resetPassword ::
  "(string \<Rightarrow> string) \<Rightarrow> int \<Rightarrow> string \<Rightarrow> string \<Rightarrow> db \<Rightarrow> (string + unit) \<times> db" where
  "resetPassword hashPassword now tok newPassword d =
     (case resetPassword_read now tok newPassword d of
        Inl err \<Rightarrow> (Inl err, d)
      | Inr resetToken \<Rightarrow> (Inr (), resetPassword_write hashPassword now resetToken newPassword d))"

text \<open>
  Two requests served at the same time. Each \<^verbatim>\<open>await\<close> of a query hands control
  back to the event loop (and other server processes share the same tables), so
  the statements of two calls can interleave; a statement itself is atomic. A call is
  either not started, past its read with the row it selected, or returned. A schedule
  says which of the two calls, \<open>True\<close> for the first and \<open>False\<close> for the second, runs
  its next phase.
\<close>

datatype reset_call = NotStarted | Validated reset_token | Returned "string + unit"

definition reset_step ::
  "(string \<Rightarrow> string) \<Rightarrow> int \<Rightarrow> string \<Rightarrow> string \<Rightarrow> reset_call \<times> db \<Rightarrow> reset_call \<times> db" where
  "reset_step hashPassword now tok newPassword cd =
     (case fst cd of
        NotStarted \<Rightarrow>
          (case resetPassword_read now tok newPassword (snd cd) of
             Inl err \<Rightarrow> (Returned (Inl err), snd cd)
           | Inr resetToken \<Rightarrow> (Validated resetToken, snd cd))
      | Validated resetToken \<Rightarrow>
          (Returned (Inr ()), resetPassword_write hashPassword now resetToken newPassword (snd cd))
      | Returned r \<Rightarrow> cd)"

fun interleave ::
  "(string \<Rightarrow> string) \<Rightarrow> int \<Rightarrow> string \<times> string \<Rightarrow> string \<times> string \<Rightarrow> bool list
     \<Rightarrow> reset_call \<times> reset_call \<times> db \<Rightarrow> reset_call \<times> reset_call \<times> db" where
  "interleave hashPassword now a b [] s = s"
| "interleave hashPassword now a b (firstCall # sched) (ca, cb, d) =
     (if firstCall
      then (case reset_step hashPassword now (fst a) (snd a) (ca, d) of
              (ca', d') \<Rightarrow> interleave hashPassword now a b sched (ca', cb, d'))
      else (case reset_step hashPassword now (fst b) (snd b) (cb, d) of
              (cb', d') \<Rightarrow> interleave hashPassword now a b sched (ca, cb', d')))"

section \<open>Federated sign-in: account binding\<close>

record microsoft_profile =
  profile_id :: string
  displayName :: "string option"
  mail :: "string option"
  givenName :: "string option"
  surname :: "string option"
  userPrincipalName :: "string option"
  jobTitle :: "string option"

definition getSsoSettings :: "db \<Rightarrow> sso_settings option" where
  "getSsoSettings d = (case ssoSettings d of [] \<Rightarrow> None | settings # _ \<Rightarrow> Some settings)"

text \<open>\<^verbatim>\<open>s.split(c)\<close> for a one-character separator.\<close>

fun split_on :: "char \<Rightarrow> string \<Rightarrow> string list" where
  "split_on c [] = [[]]"
| "split_on c (x # xs) =
     (if x = c then [] # split_on c xs
      else (case split_on c xs of [] \<Rightarrow> [[x]] | w # ws \<Rightarrow> (x # w) # ws))"

text \<open>
  \<^verbatim>\<open>email.split("@")[1]\<close>: \<open>None\<close> is \<^verbatim>\<open>undefined\<close>, which no allow-list
  contains and which a template string prints as \<^verbatim>\<open>undefined\<close>.
\<close>

definition emailDomainOf :: "string \<Rightarrow> string option" where
  "emailDomainOf email = (case split_on CHR ''@'' email of _ # domainPart # _ \<Rightarrow> Some domainPart | _ \<Rightarrow> None)"

definition show_undefined :: "string option \<Rightarrow> string" where
  "show_undefined s = (case s of None \<Rightarrow> ''undefined'' | Some v \<Rightarrow> v)"

text \<open>
  The address the binder works with, the first statement of
  \<^verbatim>\<open>handleMicrosoftSsoCallback\<close>:
  \<^verbatim>\<open>(microsoftProfile.mail || microsoftProfile.userPrincipalName || "").toLowerCase()\<close>.
\<close>

definition profileEmail :: "microsoft_profile \<Rightarrow> string" where
  "profileEmail microsoftProfile =
     toLowerCase
       (if truthy (mail microsoftProfile) then the (mail microsoftProfile)
        else if truthy (userPrincipalName microsoftProfile)
             then the (userPrincipalName microsoftProfile)
        else [])"

text \<open>
  \<^verbatim>\<open>AuthService.handleMicrosoftSsoCallback(microsoftProfile, tenantId, ipAddress,
  userAgent)\<close>. \<open>now\<close> is \<^verbatim>\<open>new Date()\<close> and \<open>newId\<close> is the value that
  \<^verbatim>\<open>gen_random_uuid()\<close> gives the inserted row. After the update the row is read
  back by its id; that read cannot come back empty, and the model gives the
  \<^verbatim>\<open>TypeError\<close> the source would raise there as an error result.
\<close>

definition handleMicrosoftSsoCallback ::
  "int \<Rightarrow> string \<Rightarrow> microsoft_profile \<Rightarrow> string \<Rightarrow> string option \<Rightarrow> string option \<Rightarrow> db
     \<Rightarrow> (string + user) \<times> db" where
  "handleMicrosoftSsoCallback now newId microsoftProfile tenantId ip ua d =
     (let email = profileEmail microsoftProfile
      in
      if email = [] then (Inl ''No email address found in Microsoft profile'', d)
      else
      let settings = getSsoSettings d;
          tenantIds = (case settings of None \<Rightarrow> None | Some s \<Rightarrow> allowedTenantIds s);
          emailDomain = emailDomainOf email;
          emailDomains = (case settings of None \<Rightarrow> None | Some s \<Rightarrow> allowedEmailDomains s)
      in
      if (case tenantIds of None \<Rightarrow> False | Some ids \<Rightarrow> length ids > 0 \<and> tenantId \<notin> set ids)
      then
        (Inl ''Your organization is not authorized for SSO'',
         logAuditEvent
           \<lparr>ev_userId = None, ev_email = Some email, action = ''failed_sso_login'',
            provider = Some Microsoft, ipAddress = ip, userAgent = ua, success = False,
            failureReason = Some (''Tenant '' @ tenantId @ '' not in allowed list''),
            metadata = None\<rparr> d)
      else if (case emailDomains of None \<Rightarrow> False
               | Some doms \<Rightarrow> length doms > 0 \<and> emailDomain \<notin> Some ` set doms)
      then
        (Inl ''Your email domain is not authorized for access'',
         logAuditEvent
           \<lparr>ev_userId = None, ev_email = Some email, action = ''failed_sso_login'',
            provider = Some Microsoft, ipAddress = ip, userAgent = ua, success = False,
            failureReason =
              Some (''Email domain '' @ show_undefined emailDomain @ '' not in allowed list''),
            metadata = None\<rparr> d)
      else
      (case find (\<lambda>u. user_email u = Some email) (users d) of
         Some usr \<Rightarrow>
           if isDisabled usr then
             (Inl ''Account is disabled. Contact your administrator.'',
              logAuditEvent
                \<lparr>ev_userId = Some (user_id usr), ev_email = Some email,
                 action = ''failed_sso_login'', provider = Some Microsoft, ipAddress = ip,
                 userAgent = ua, success = False, failureReason = Some ''Account disabled'',
                 metadata = None\<rparr> d)
           else
             let d1 = d\<lparr>users :=
                        map (\<lambda>u. if user_id u = user_id usr
                                  then u\<lparr>microsoftUserId := Some (profile_id microsoftProfile),
                                         microsoftTenantId := Some tenantId,
                                         authProvider :=
                                           (if authProvider usr = Local then Local else Microsoft),
                                         user_firstName :=
                                           js_or (givenName microsoftProfile) (user_firstName usr),
                                         user_lastName :=
                                           js_or (surname microsoftProfile) (user_lastName usr),
                                         lastLoginAt := Some now,
                                         user_updatedAt := Some now\<rparr>
                                  else u) (users d)\<rparr>
             in (case find (\<lambda>u. user_id u = user_id usr) (users d1) of
                   None \<Rightarrow> (Inl ''TypeError'', d1)
                 | Some usr' \<Rightarrow>
                     (Inr usr',
                      logAuditEvent
                        \<lparr>ev_userId = Some (user_id usr'), ev_email = user_email usr',
                         action = ''sso_login'', provider = Some Microsoft, ipAddress = ip,
                         userAgent = ua, success = True, failureReason = None,
                         metadata = Some (tenantId, profile_id microsoftProfile)\<rparr> d1))
       | None \<Rightarrow>
           if (case settings of None \<Rightarrow> False | Some s \<Rightarrow> autoProvisionUsers s = False) then
             (Inl ''Account does not exist. Contact your administrator for access.'',
              logAuditEvent
                \<lparr>ev_userId = None, ev_email = Some email, action = ''failed_sso_login'',
                 provider = Some Microsoft, ipAddress = ip, userAgent = ua, success = False,
                 failureReason = Some ''Auto-provisioning disabled and user does not exist'',
                 metadata = None\<rparr> d)
           else
             let usr' =
                   \<lparr>user_id = newId, user_email = Some email,
                    user_firstName = js_or (givenName microsoftProfile) None,
                    user_lastName = js_or (surname microsoftProfile) None,
                    authProvider = Microsoft, passwordHash = None,
                    microsoftUserId = Some (profile_id microsoftProfile),
                    microsoftTenantId = Some tenantId, isDisabled = False,
                    emailVerified = True, user_createdAt = Some now,
                    user_updatedAt = Some now, lastLoginAt = None\<rparr>;
                 d1 = d\<lparr>users := users d @ [usr']\<rparr>
             in (Inr usr',
                 logAuditEvent
                   \<lparr>ev_userId = Some (user_id usr'), ev_email = user_email usr',
                    action = ''sso_login'', provider = Some Microsoft, ipAddress = ip,
                    userAgent = ua, success = True, failureReason = None,
                    metadata = Some (tenantId, profile_id microsoftProfile)\<rparr> d1)))"

section \<open>The other writers of the accounts table\<close>

text \<open>
  \<^verbatim>\<open>AuthService.registerLocalUser(email, password, firstName, lastName)\<close>, with
  \<open>newId\<close> the id that \<^verbatim>\<open>gen_random_uuid()\<close> gives the inserted row.
\<close>

definition registerLocalUser ::
  "(string \<Rightarrow> string) \<Rightarrow> int \<Rightarrow> string \<Rightarrow> string \<Rightarrow> string \<Rightarrow> string option \<Rightarrow> string option
     \<Rightarrow> db \<Rightarrow> (string + user) \<times> db" where
  "registerLocalUser hashPassword now newId email password firstName lastName d =
     (case find (\<lambda>u. user_email u = Some (toLowerCase email)) (users d) of
        Some existingUser \<Rightarrow> (Inl ''Email already registered'', d)
      | None \<Rightarrow>
          if length password < 8 then (Inl ''Password must be at least 8 characters'', d)
          else
            let newUser =
                  \<lparr>user_id = newId, user_email = Some (toLowerCase email),
                   user_firstName = js_or firstName None, user_lastName = js_or lastName None,
                   authProvider = Local, passwordHash = Some (hashPassword password),
                   microsoftUserId = None, microsoftTenantId = None, isDisabled = False,
                   emailVerified = False, user_createdAt = Some now,
                   user_updatedAt = Some now, lastLoginAt = None\<rparr>
            in (Inr newUser,
                logAuditEvent
                  \<lparr>ev_userId = Some (user_id newUser), ev_email = user_email newUser,
                   action = ''register'', provider = Some Local, ipAddress = None,
                   userAgent = None, success = True, failureReason = None, metadata = None\<rparr>
                  (d\<lparr>users := users d @ [newUser]\<rparr>)))"

definition RESET_TOKEN_EXPIRY_HOURS :: int where
  "RESET_TOKEN_EXPIRY_HOURS = 24"

text \<open>
  \<^verbatim>\<open>AuthService.createPasswordResetToken(email)\<close>, with \<open>tokenValue\<close> the 32 random
  bytes in hexadecimal and \<open>newId\<close> the id of the inserted row. The result is
  \<open>Inr None\<close> for \<^verbatim>\<open>{ success: true }\<close> and \<open>Inr (Some token)\<close> for
  \<^verbatim>\<open>{ success: true, token }\<close>.
\<close>

definition createPasswordResetToken ::
  "int \<Rightarrow> string \<Rightarrow> string \<Rightarrow> string \<Rightarrow> db \<Rightarrow> (string + string option) \<times> db" where
  "createPasswordResetToken now newId tokenValue email d =
     (case find (\<lambda>u. user_email u = Some (toLowerCase email)) (users d) of
        None \<Rightarrow> (Inr None, d)
      | Some usr \<Rightarrow>
          if authProvider usr \<noteq> Local
          then (Inl ''This account uses SSO. Password reset is not available.'', d)
          else
            (Inr (Some tokenValue),
             logAuditEvent
               \<lparr>ev_userId = Some (user_id usr), ev_email = user_email usr,
                action = ''password_reset_request'', provider = Some Local, ipAddress = None,
                userAgent = None, success = True, failureReason = None, metadata = None\<rparr>
               (d\<lparr>passwordResetTokens := passwordResetTokens d @
                    [\<lparr>token_id = newId, token_userId = user_id usr, token = tokenValue,
                      expiresAt = now + RESET_TOKEN_EXPIRY_HOURS * 60 * 60 * 1000,
                      usedAt = None\<rparr>]\<rparr>)))"

text \<open>\<^verbatim>\<open>AuthService.linkMicrosoftAccount(userId, microsoftUserId, tenantId)\<close>.\<close>

definition linkMicrosoftAccount ::
  "int \<Rightarrow> string \<Rightarrow> string \<Rightarrow> string \<Rightarrow> db \<Rightarrow> (string + unit) \<times> db" where
  "linkMicrosoftAccount now userId msUserId tenantId d =
     (case find (\<lambda>u. user_id u = userId) (users d) of
        None \<Rightarrow> (Inl ''User not found'', d)
      | Some usr \<Rightarrow>
          (Inr (),
           logAuditEvent
             \<lparr>ev_userId = Some userId, ev_email = user_email usr,
              action = ''microsoft_account_linked'', provider = Some Microsoft,
              ipAddress = None, userAgent = None, success = True, failureReason = None,
              metadata = Some (tenantId, msUserId)\<rparr>
             (d\<lparr>users :=
                  map (\<lambda>u. if user_id u = userId
                            then u\<lparr>microsoftUserId := Some msUserId,
                                   microsoftTenantId := Some tenantId,
                                   user_updatedAt := Some now\<rparr>
                            else u) (users d)\<rparr>)))"

text \<open>\<^verbatim>\<open>AuthService.unlinkMicrosoftAccount(userId)\<close>.\<close>

definition unlinkMicrosoftAccount :: "int \<Rightarrow> string \<Rightarrow> db \<Rightarrow> (string + unit) \<times> db" where
  "unlinkMicrosoftAccount now userId d =
     (case find (\<lambda>u. user_id u = userId) (users d) of
        None \<Rightarrow> (Inl ''User not found'', d)
      | Some usr \<Rightarrow>
          if authProvider usr = Microsoft \<and> \<not> truthy (passwordHash usr)
          then (Inl ''Cannot unlink Microsoft account without setting a password first'', d)
          else
            (Inr (),
             logAuditEvent
               \<lparr>ev_userId = Some userId, ev_email = user_email usr,
                action = ''microsoft_account_unlinked'', provider = Some Local,
                ipAddress = None, userAgent = None, success = True, failureReason = None,
                metadata = None\<rparr>
               (d\<lparr>users :=
                    map (\<lambda>u. if user_id u = userId
                              then u\<lparr>microsoftUserId := None, microsoftTenantId := None,
                                     authProvider := Local, user_updatedAt := Some now\<rparr>
                              else u) (users d)\<rparr>)))"

text \<open>
  \<^verbatim>\<open>AuthService.disableUser(userId)\<close> and \<^verbatim>\<open>AuthService.enableUser(userId)\<close>; their
  audit events name no provider.
\<close>

definition disableUser :: "int \<Rightarrow> string \<Rightarrow> db \<Rightarrow> (string + unit) \<times> db" where
  "disableUser now userId d =
     (case find (\<lambda>u. user_id u = userId) (users d) of
        None \<Rightarrow> (Inl ''User not found'', d)
      | Some usr \<Rightarrow>
          (Inr (),
           logAuditEvent
             \<lparr>ev_userId = Some userId, ev_email = user_email usr, action = ''user_disabled'',
              provider = None, ipAddress = None, userAgent = None, success = True,
              failureReason = None, metadata = None\<rparr>
             (d\<lparr>users :=
                  map (\<lambda>u. if user_id u = userId
                            then u\<lparr>isDisabled := True, user_updatedAt := Some now\<rparr> else u)
                    (users d)\<rparr>)))"

definition enableUser :: "int \<Rightarrow> string \<Rightarrow> db \<Rightarrow> (string + unit) \<times> db" where
  "enableUser now userId d =
     (case find (\<lambda>u. user_id u = userId) (users d) of
        None \<Rightarrow> (Inl ''User not found'', d)
      | Some usr \<Rightarrow>
          (Inr (),
           logAuditEvent
             \<lparr>ev_userId = Some userId, ev_email = user_email usr, action = ''user_enabled'',
              provider = None, ipAddress = None, userAgent = None, success = True,
              failureReason = None, metadata = None\<rparr>
             (d\<lparr>users :=
                  map (\<lambda>u. if user_id u = userId
                            then u\<lparr>isDisabled := False, user_updatedAt := Some now\<rparr> else u)
                    (users d)\<rparr>)))"

section \<open>What the writers keep true of the store\<close>

text \<open>
  Account ids are unique (the primary key). An account that has a password hash is of
  local origin. Every reset token belongs to an account of local origin (the foreign
  key, and the guard of \<^verbatim>\<open>createPasswordResetToken\<close>).
\<close>

definition unique_ids :: "db \<Rightarrow> bool" where
  "unique_ids d = distinct (map user_id (users d))"

definition password_implies_local :: "db \<Rightarrow> bool" where
  "password_implies_local d =
     (\<forall>u \<in> set (users d). passwordHash u \<noteq> None \<longrightarrow> authProvider u = Local)"

definition tokens_of_local :: "db \<Rightarrow> bool" where
  "tokens_of_local d =
     (\<forall>t \<in> set (passwordResetTokens d).
        \<exists>u \<in> set (users d). user_id u = token_userId t \<and> authProvider u = Local)"

definition store_inv :: "db \<Rightarrow> bool" where
  "store_inv d = (unique_ids d \<and> password_implies_local d \<and> tokens_of_local d)"

section \<open>Role bootstrap of the CRM profile\<close>

text \<open>
  The column \<^verbatim>\<open>crm_users.role\<close> has the enum type \<^verbatim>\<open>user_role\<close>;
  \<open>role_of_string\<close> is the database's reading of a role name, and \<open>None\<close> is its
  refusal of any other string.
\<close>

definition role_of_string :: "string \<Rightarrow> user_role option" where
  "role_of_string r =
     (if r = ''admin'' then Some Admin
      else if r = ''manager'' then Some Manager
      else if r = ''sales'' then Some Sales
      else None)"

text \<open>
  \<^verbatim>\<open>ensureCrmUser(user)\<close> of \<^verbatim>\<open>server/auth/routes.ts\<close>. The result is \<open>None\<close>
  when the insert is refused (the query throws), otherwise the store after the call.
\<close>

definition ensureCrmUser :: "user \<Rightarrow> db \<Rightarrow> db option" where
  "ensureCrmUser usr d =
     (case find (\<lambda>c. authUserId c = user_id usr) (crmUsers d) of
        Some existingCrmUser \<Rightarrow> Some d
      | None \<Rightarrow>
          let defaultRole =
                (case getSsoSettings d of
                   None \<Rightarrow> ''sales''
                 | Some s \<Rightarrow> if truthy (defaultRoleForSso s) then the (defaultRoleForSso s)
                             else ''sales'')
          in (case role_of_string (if authProvider usr = Local then ''sales'' else defaultRole) of
                None \<Rightarrow> None
              | Some r \<Rightarrow>
                  Some (d\<lparr>crmUsers := crmUsers d @
                           [\<lparr>authUserId = user_id usr, role = r,
                             crm_firstName = user_firstName usr,
                             crm_lastName = user_lastName usr,
                             crm_email = user_email usr\<rparr>]\<rparr>)))"

section \<open>Session and authorization gates\<close>

text \<open>
  \<^verbatim>\<open>passport.deserializeUser\<close> rebuilds \<^verbatim>\<open>req.user\<close> from the \<^verbatim>\<open>users\<close> row of the
  session's account id on every request; \<^verbatim>\<open>req.isAuthenticated()\<close> holds exactly
  when that gave a user. A gate either calls \<^verbatim>\<open>next()\<close> or answers with a status
  and a message; the second component of a gate's result is \<^verbatim>\<open>req.user\<close> after the
  gate (\<^verbatim>\<open>req.logout\<close> clears it).
\<close>

record AuthUser =
  au_id :: string
  au_email :: "string option"
  au_firstName :: "string option"
  au_lastName :: "string option"
  au_authProvider :: auth_provider
  au_isDisabled :: bool

definition deserializeUser :: "string \<Rightarrow> db \<Rightarrow> AuthUser option" where
  "deserializeUser uid d =
     (case find (\<lambda>u. user_id u = uid) (users d) of
        None \<Rightarrow> None
      | Some usr \<Rightarrow>
          Some \<lparr>au_id = user_id usr, au_email = user_email usr,
                au_firstName = user_firstName usr, au_lastName = user_lastName usr,
                au_authProvider = authProvider usr, au_isDisabled = isDisabled usr\<rparr>)"

datatype gate_outcome = Next | Respond nat string

definition isAuthenticated :: "AuthUser option \<Rightarrow> gate_outcome \<times> AuthUser option" where
  "isAuthenticated req_user =
     (case req_user of
        None \<Rightarrow> (Respond 401 ''Unauthorized'', req_user)
      | Some usr \<Rightarrow>
          if au_isDisabled usr then (Respond 403 ''Account is disabled'', None)
          else (Next, req_user))"

definition isAdmin :: "AuthUser option \<Rightarrow> db \<Rightarrow> gate_outcome \<times> AuthUser option" where
  "isAdmin req_user d =
     (case req_user of
        None \<Rightarrow> (Respond 401 ''Unauthorized'', req_user)
      | Some usr \<Rightarrow>
          (case find (\<lambda>c. authUserId c = au_id usr) (crmUsers d) of
             None \<Rightarrow> (Respond 403 ''Admin access required'', req_user)
           | Some crmUser \<Rightarrow>
               if role crmUser \<noteq> Admin then (Respond 403 ''Admin access required'', req_user)
               else (Next, req_user)))"

section \<open>Federated sign-in: the Microsoft callback\<close>

text \<open>
  What the service reaches outside the process is gathered in one record: the
  environment variables, the \<^verbatim>\<open>jsonwebtoken\<close> and \<^verbatim>\<open>jwks-rsa\<close> libraries and the
  HTTP endpoints. Each is a function of its arguments, with \<open>None\<close> for a thrown error,
  a rejected promise or a response that is not ok. The redirect URI of the
  configuration plays no part in the callback and is left out.
\<close>

record microsoft_auth_config =
  clientId :: string
  clientSecret :: string
  cfg_tenantId :: string

record token_response =
  access_token :: string
  id_token :: "string option"

record id_token_payload =
  iss :: string
  sub :: string
  aud :: string
  exp :: int
  iat :: int
  tid :: "string option"
  claim_email :: "string option"
  preferred_username :: "string option"

record decoded_jwt =
  header_kid :: "string option"
  payload_tid :: "string option"

record verify_options =
  algorithms :: "string list"
  audience :: string
  issuer :: "string list"
  clockTolerance :: nat

record outside =
  MICROSOFT_CLIENT_ID :: "string option"
  MICROSOFT_CLIENT_SECRET :: "string option"
  MICROSOFT_TENANT_ID :: "string option"
  jwt_decode :: "string \<Rightarrow> decoded_jwt option"
  jwks_getSigningKey :: "string \<Rightarrow> string \<Rightarrow> string option"
  jwt_verify :: "string \<Rightarrow> string \<Rightarrow> verify_options \<Rightarrow> id_token_payload option"
  token_endpoint :: "microsoft_auth_config \<Rightarrow> string \<Rightarrow> token_response option"
  graph_me :: "string \<Rightarrow> microsoft_profile option"
  graph_organization :: "string \<Rightarrow> string option"

definition getConfig :: "outside \<Rightarrow> microsoft_auth_config option" where
  "getConfig ext =
     (if \<not> truthy (MICROSOFT_CLIENT_ID ext) \<or> \<not> truthy (MICROSOFT_CLIENT_SECRET ext) then None
      else Some \<lparr>clientId = the (MICROSOFT_CLIENT_ID ext),
                 clientSecret = the (MICROSOFT_CLIENT_SECRET ext),
                 cfg_tenantId = (if truthy (MICROSOFT_TENANT_ID ext)
                                 then the (MICROSOFT_TENANT_ID ext) else ''common'')\<rparr>)"

text \<open>
  \<^verbatim>\<open>getSigningKey(tenantId, kid)\<close>: the key with that \<^verbatim>\<open>kid\<close> from the key set
  published at \<^verbatim>\<open>https://login.microsoftonline.com/{tenantId}/discovery/v2.0/keys\<close>;
  an empty key is rejected like a missing one.
\<close>

definition getSigningKey :: "outside \<Rightarrow> string \<Rightarrow> string \<Rightarrow> string option" where
  "getSigningKey ext tenant kid =
     (if truthy (jwks_getSigningKey ext tenant kid) then jwks_getSigningKey ext tenant kid
      else None)"

definition verifyIdToken :: "outside \<Rightarrow> string \<Rightarrow> id_token_payload option" where
  "verifyIdToken ext idToken =
     (case getConfig ext of
        None \<Rightarrow> None
      | Some config \<Rightarrow>
          (case jwt_decode ext idToken of
             None \<Rightarrow> None
           | Some decoded \<Rightarrow>
               if \<not> truthy (header_kid decoded) then None
               else
                 let kid = the (header_kid decoded);
                     tenant = (if truthy (payload_tid decoded) then the (payload_tid decoded)
                               else cfg_tenantId config);
                     tenantForJwks = (if tenant = ''common'' then cfg_tenantId config else tenant)
                 in (case getSigningKey ext tenantForJwks kid of
                       None \<Rightarrow> None
                     | Some signingKey \<Rightarrow>
                         jwt_verify ext idToken signingKey
                           \<lparr>algorithms = [''RS256''],
                            audience = clientId config,
                            issuer = [''https://login.microsoftonline.com/'' @ tenant @ ''/v2.0'',
                                      ''https://sts.windows.net/'' @ tenant @ ''/''],
                            clockTolerance = 300\<rparr>)))"

definition exchangeCodeForToken :: "outside \<Rightarrow> string \<Rightarrow> token_response option" where
  "exchangeCodeForToken ext code =
     (case getConfig ext of None \<Rightarrow> None | Some config \<Rightarrow> token_endpoint ext config code)"

definition getUserProfile :: "outside \<Rightarrow> string \<Rightarrow> microsoft_profile option" where
  "getUserProfile ext accessToken = graph_me ext accessToken"

definition getOrganizationTenantId :: "outside \<Rightarrow> string \<Rightarrow> string option" where
  "getOrganizationTenantId ext accessToken =
     (if truthy (graph_organization ext accessToken) then graph_organization ext accessToken
      else None)"

text \<open>
  \<^verbatim>\<open>MicrosoftAuthService.handleCallback(code, state, ipAddress, userAgent)\<close>. The
  result comes with the pending states and the store after the call.
\<close>

definition handleCallback ::
  "outside \<Rightarrow> int \<Rightarrow> string \<Rightarrow> string \<Rightarrow> string \<Rightarrow> string option \<Rightarrow> string option
     \<Rightarrow> pendingStates \<times> db \<Rightarrow> (string + user) \<times> pendingStates \<times> db" where
  "handleCallback ext now newId code state ip ua psd =
     (case validateState state now (fst psd) of
        (False, ps) \<Rightarrow>
          (Inl ''Invalid or expired state parameter (possible CSRF attack)'', ps, snd psd)
      | (True, ps) \<Rightarrow>
          (case exchangeCodeForToken ext code of
             None \<Rightarrow> (Inl ''Failed to authenticate with Microsoft'', ps, snd psd)
           | Some tokenResponse \<Rightarrow>
               let verifiedClaims =
                     (if truthy (id_token tokenResponse)
                      then verifyIdToken ext (the (id_token tokenResponse)) else None)
               in
               if truthy (id_token tokenResponse) \<and> verifiedClaims = None
               then (Inl ''Invalid authentication token from Microsoft'', ps, snd psd)
               else
               (case getUserProfile ext (access_token tokenResponse) of
                  None \<Rightarrow> (Inl ''Failed to fetch Microsoft profile'', ps, snd psd)
                | Some profile \<Rightarrow>
                    let claimTid = (case verifiedClaims of None \<Rightarrow> None | Some c \<Rightarrow> tid c);
                        tenantId =
                          (if truthy claimTid then the claimTid
                           else (case getOrganizationTenantId ext (access_token tokenResponse) of
                                   Some org \<Rightarrow> org
                                 | None \<Rightarrow>
                                     (case getConfig ext of
                                        Some config \<Rightarrow>
                                          if cfg_tenantId config \<noteq> [] then cfg_tenantId config
                                          else ''unknown''
                                      | None \<Rightarrow> ''unknown'')));
                        idTokenEmail =
                          (case verifiedClaims of
                             None \<Rightarrow> None
                           | Some c \<Rightarrow> js_or (claim_email c) (preferred_username c))
                    in
                    if verifiedClaims \<noteq> None \<and> truthy (mail profile) \<and> truthy idTokenEmail
                       \<and> toLowerCase (the idTokenEmail) \<noteq> toLowerCase (the (mail profile))
                    then (Inl ''Authentication data mismatch'', ps, snd psd)
                    else
                      (case handleMicrosoftSsoCallback now newId profile tenantId ip ua (snd psd) of
                         (res, d') \<Rightarrow> (res, ps, d')))))"

section \<open>The token library\<close>




section \<open>Example data\<close>

definition alice :: user where
  "alice =
     \<lparr>user_id = ''u1'', user_email = Some ''alice@acme.com'', user_firstName = Some ''Alice'',
      user_lastName = None, authProvider = Local, passwordHash = Some ''h:correct-horse'',
      microsoftUserId = None, microsoftTenantId = None, isDisabled = False,
      emailVerified = False, user_createdAt = Some 0, user_updatedAt = Some 0,
      lastLoginAt = None\<rparr>"

definition carol :: user where
  "carol = alice\<lparr>user_id := ''u2'', user_email := Some ''carol@acme.com'', isDisabled := True\<rparr>"

definition dave :: user where
  "dave = alice\<lparr>user_id := ''u3'', user_email := Some ''dave@acme.com'',
     authProvider := Microsoft, passwordHash := None\<rparr>"

definition example_db :: db where
  "example_db =
     \<lparr>users = [alice, carol, dave], passwordResetTokens = [], ssoSettings = [],
      authAuditLog = [], crmUsers = []\<rparr>"

definition reset_db :: db where
  "reset_db =
     \<lparr>users = [alice],
      passwordResetTokens =
        [\<lparr>token_id = ''t1'', token_userId = ''u1'', token = ''tok'', expiresAt = 100,
          usedAt = None\<rparr>],
      ssoSettings = [], authAuditLog = [], crmUsers = []\<rparr>"

definition used_db :: db where
  "used_db =
     \<lparr>users = [alice],
      passwordResetTokens =
        [\<lparr>token_id = ''t1'', token_userId = ''u1'', token = ''tok'', expiresAt = 100,
          usedAt = Some 50\<rparr>],
      ssoSettings = [], authAuditLog = [], crmUsers = []\<rparr>"

definition example_verify :: "string \<Rightarrow> string \<Rightarrow> bool" where
  "example_verify password hash = (hash = ''h:'' @ password)"

definition example_hash :: "string \<Rightarrow> string" where
  "example_hash password = ''h:'' @ password"

definition admin_db :: db where
  "admin_db =
     \<lparr>users = [carol], passwordResetTokens = [], ssoSettings = [], authAuditLog = [],
      crmUsers = [\<lparr>authUserId = ''u2'', role = Admin, crm_firstName = Some ''Alice'',
                   crm_lastName = None, crm_email = Some ''carol@acme.com''\<rparr>]\<rparr>"


definition empty_db :: db where
  "empty_db =
     \<lparr>users = [], passwordResetTokens = [], ssoSettings = [], authAuditLog = [], crmUsers = []\<rparr>"

definition mallory_claims :: id_token_payload where
  "mallory_claims =
     \<lparr>iss = ''https://login.microsoftonline.com/contoso/v2.0'', sub = ''s-1'', aud = ''client-1'',
      exp = 2000, iat = 900, tid = Some ''contoso'', claim_email = Some ''mallory@evil.example'',
      preferred_username = None\<rparr>"

definition upn_profile :: microsoft_profile where
  "upn_profile =
     \<lparr>profile_id = ''ms-7'', displayName = None, mail = None, givenName = Some ''Vic'',
      surname = None, userPrincipalName = Some ''Victim@acme.com'', jobTitle = None\<rparr>"

definition mail_profile :: microsoft_profile where
  "mail_profile = upn_profile\<lparr>mail := Some ''Victim@acme.com''\<rparr>"

definition example_outside :: outside where
  "example_outside =
     \<lparr>MICROSOFT_CLIENT_ID = Some ''client-1'', MICROSOFT_CLIENT_SECRET = Some ''s3cret'',
      MICROSOFT_TENANT_ID = Some ''contoso'',
      jwt_decode = (\<lambda>t. if t = ''idtoken''
                         then Some \<lparr>header_kid = Some ''k1'', payload_tid = Some ''contoso''\<rparr>
                         else None),
      jwks_getSigningKey = (\<lambda>tenant kid. if tenant = ''contoso'' \<and> kid = ''k1''
                                        then Some ''PUBKEY'' else None),
      jwt_verify = (\<lambda>t key opts.
         if t = ''idtoken'' \<and> key = ''PUBKEY'' \<and> ''RS256'' \<in> set (algorithms opts)
            \<and> audience opts = ''client-1''
            \<and> ''https://login.microsoftonline.com/contoso/v2.0'' \<in> set (issuer opts)
         then Some mallory_claims else None),
      token_endpoint = (\<lambda>config code.
         if code = ''code-1'' then Some \<lparr>access_token = ''at-upn'', id_token = Some ''idtoken''\<rparr>
         else if code = ''code-2'' then Some \<lparr>access_token = ''at-mail'', id_token = Some ''idtoken''\<rparr>
         else if code = ''code-3'' then Some \<lparr>access_token = ''at-upn'', id_token = None\<rparr>
         else None),
      graph_me = (\<lambda>accessToken. if accessToken = ''at-upn'' then Some upn_profile
                               else if accessToken = ''at-mail'' then Some mail_profile
                               else None),
      graph_organization = (\<lambda>accessToken. None)\<rparr>"

definition example_pending :: pendingStates where
  "example_pending = [''st'' \<mapsto> \<lparr>createdAt = 0, redirectTo = None\<rparr>]"

definition frank :: user where
  "frank =
     \<lparr>user_id = ''u6'', user_email = Some ''frank@acme.com'', user_firstName = None,
      user_lastName = Some ''Example'', authProvider = Microsoft, passwordHash = None,
      microsoftUserId = Some ''ms-6'', microsoftTenantId = Some ''contoso'',
      isDisabled = False, emailVerified = True, user_createdAt = Some 1,
      user_updatedAt = Some 1, lastLoginAt = None\<rparr>"

definition bind_db :: db where
  "bind_db =
     \<lparr>users = [alice, frank], passwordResetTokens = [], ssoSettings = [],
      authAuditLog =
        [\<lparr>ev_userId = Some ''u1'', ev_email = Some ''alice@acme.com'', action = ''register'',
          provider = Some Local, ipAddress = None, userAgent = None, success = True,
          failureReason = None, metadata = None\<rparr>,
         \<lparr>ev_userId = Some ''u6'', ev_email = Some ''frank@acme.com'', action = ''sso_login'',
          provider = Some Microsoft, ipAddress = None, userAgent = None, success = True,
          failureReason = None, metadata = Some (''contoso'', ''ms-6'')\<rparr>],
      crmUsers = []\<rparr>"

definition erin_profile :: microsoft_profile where
  "erin_profile =
     \<lparr>profile_id = ''ms-5'', displayName = None, mail = Some ''Erin@acme.com'',
      givenName = None, surname = Some ''Example'', userPrincipalName = None, jobTitle = None\<rparr>"

definition alice_profile :: microsoft_profile where
  "alice_profile = erin_profile\<lparr>profile_id := ''ms-1'', mail := Some ''alice@acme.com''\<rparr>"

definition frank_profile :: microsoft_profile where
  "frank_profile = erin_profile\<lparr>profile_id := ''ms-6'', mail := Some ''frank@acme.com''\<rparr>"

definition policy :: sso_settings where
  "policy =
     \<lparr>allowedTenantIds = None, allowedEmailDomains = Some [''acme.com''],
      defaultRoleForSso = Some ''manager'', autoProvisionUsers = True, ssoOnly = False\<rparr>"

definition policy_db :: db where
  "policy_db =
     \<lparr>users = [carol], passwordResetTokens = [], ssoSettings = [policy], authAuditLog = [],
      crmUsers = []\<rparr>"

definition bob_profile :: microsoft_profile where
  "bob_profile = erin_profile\<lparr>profile_id := ''ms-2'', mail := Some ''bob@other.com''\<rparr>"






section \<open>Properties\<close>

text \<open>
  C6. State values are single-use. After any call the looked-up value is no longer
  pending (an entry that was found is deleted on the success path and on the expiry
  path), the other entries are untouched, the call returns true exactly when the value
  was pending and not older than ten minutes (so it returns false when the value is
  absent or older than 600000 ms), and a second call with the same value, at any later
  or earlier clock reading, returns false.
\<close>

theorem validateState_single_use:
  "snd (validateState s now ps) s = None
   \<and> (\<forall>k. k \<noteq> s \<longrightarrow> snd (validateState s now ps) k = ps k)
   \<and> fst (validateState s now ps)
       = (\<exists>p. ps s = Some p \<and> now - createdAt p \<le> 600000)
   \<and> \<not> fst (validateState s now' (snd (validateState s now ps)))"
  by (auto simp: validateState_def STATE_EXPIRY_MS_def split: option.splits)

theorem validateState_single_use_witness:
  "fst (validateState ''abc'' 1000 [''abc'' \<mapsto> \<lparr>createdAt = 500, redirectTo = None\<rparr>])
   \<and> \<not> fst (validateState ''abc'' 1001
        (snd (validateState ''abc'' 1000 [''abc'' \<mapsto> \<lparr>createdAt = 500, redirectTo = None\<rparr>])))
   \<and> \<not> fst (validateState ''abc'' 700000 [''abc'' \<mapsto> \<lparr>createdAt = 500, redirectTo = None\<rparr>])
   \<and> snd (validateState ''abc'' 700000 [''abc'' \<mapsto> \<lparr>createdAt = 500, redirectTo = None\<rparr>]) ''abc'' = None"
  using validateState_single_use
    [of "''abc''" 1000 "[''abc'' \<mapsto> \<lparr>createdAt = 500, redirectTo = None\<rparr>]" 1001]
    validateState_single_use
    [of "''abc''" 700000 "[''abc'' \<mapsto> \<lparr>createdAt = 500, redirectTo = None\<rparr>]" 0]
  by simp

text \<open>
  C7. Local login has four failure paths. When no account has the (lower-cased)
  address, when the account is disabled, when it has no password, and when the password
  does not verify, the call leaves the accounts untouched and appends exactly one
  \<^verbatim>\<open>failed_login\<close> event, whose failure reason is a different one on each path.
  The error given to the caller is the same message on the not-found and the mismatch
  path, and a message of its own on the disabled and on the no-password path.
\<close>

theorem loginLocalUser_failure_paths:
  "(find (\<lambda>u. user_email u = Some (toLowerCase email)) (users d) = None \<longrightarrow>
      loginLocalUser v now email pw ip ua d =
        (Inl ''Invalid email or password'',
         d\<lparr>authAuditLog := authAuditLog d @
            [\<lparr>ev_userId = None, ev_email = Some email, action = ''failed_login'',
              provider = Some Local, ipAddress = ip, userAgent = ua, success = False,
              failureReason = Some ''User not found'', metadata = None\<rparr>]\<rparr>))
   \<and> (find (\<lambda>u. user_email u = Some (toLowerCase email)) (users d) = Some u \<and> isDisabled u \<longrightarrow>
      loginLocalUser v now email pw ip ua d =
        (Inl ''Account is disabled. Contact your administrator.'',
         d\<lparr>authAuditLog := authAuditLog d @
            [\<lparr>ev_userId = Some (user_id u), ev_email = Some email, action = ''failed_login'',
              provider = Some Local, ipAddress = ip, userAgent = ua, success = False,
              failureReason = Some ''Account disabled'', metadata = None\<rparr>]\<rparr>))
   \<and> (find (\<lambda>u. user_email u = Some (toLowerCase email)) (users d) = Some u \<and> \<not> isDisabled u
        \<and> \<not> truthy (passwordHash u) \<longrightarrow>
      loginLocalUser v now email pw ip ua d =
        (Inl ''This account uses Microsoft SSO. Please sign in with Microsoft.'',
         d\<lparr>authAuditLog := authAuditLog d @
            [\<lparr>ev_userId = Some (user_id u), ev_email = Some email, action = ''failed_login'',
              provider = Some Local, ipAddress = ip, userAgent = ua, success = False,
              failureReason = Some ''No password set (SSO account)'', metadata = None\<rparr>]\<rparr>))
   \<and> (find (\<lambda>u. user_email u = Some (toLowerCase email)) (users d) = Some u \<and> \<not> isDisabled u
        \<and> passwordHash u = Some h \<and> h \<noteq> [] \<and> \<not> v pw h \<longrightarrow>
      loginLocalUser v now email pw ip ua d =
        (Inl ''Invalid email or password'',
         d\<lparr>authAuditLog := authAuditLog d @
            [\<lparr>ev_userId = Some (user_id u), ev_email = Some email, action = ''failed_login'',
              provider = Some Local, ipAddress = ip, userAgent = ua, success = False,
              failureReason = Some ''Invalid password'', metadata = None\<rparr>]\<rparr>))
   \<and> distinct [''User not found'', ''Account disabled'', ''No password set (SSO account)'',
                ''Invalid password'']
   \<and> distinct [''Invalid email or password'', ''Account is disabled. Contact your administrator.'',
                ''This account uses Microsoft SSO. Please sign in with Microsoft.'']"
  by (simp add: loginLocalUser_def logAuditEvent_def truthy_def)

theorem loginLocalUser_failure_paths_witness:
  "fst (loginLocalUser example_verify 5 ''Nobody@acme.com'' ''x'' None None example_db)
     = Inl ''Invalid email or password''
   \<and> map failureReason
        (authAuditLog
          (snd (loginLocalUser example_verify 5 ''Nobody@acme.com'' ''x'' None None example_db)))
     = [Some ''User not found'']
   \<and> fst (loginLocalUser example_verify 5 ''Carol@acme.com'' ''correct-horse'' None None example_db)
     = Inl ''Account is disabled. Contact your administrator.''
   \<and> map failureReason
        (authAuditLog
          (snd (loginLocalUser example_verify 5 ''Carol@acme.com'' ''correct-horse'' None None
                 example_db)))
     = [Some ''Account disabled'']
   \<and> fst (loginLocalUser example_verify 5 ''dave@acme.com'' ''correct-horse'' None None example_db)
     = Inl ''This account uses Microsoft SSO. Please sign in with Microsoft.''
   \<and> map failureReason
        (authAuditLog
          (snd (loginLocalUser example_verify 5 ''dave@acme.com'' ''correct-horse'' None None
                 example_db)))
     = [Some ''No password set (SSO account)'']
   \<and> fst (loginLocalUser example_verify 5 ''ALICE@acme.com'' ''wrong'' None None example_db)
     = Inl ''Invalid email or password''
   \<and> map failureReason
        (authAuditLog
          (snd (loginLocalUser example_verify 5 ''ALICE@acme.com'' ''wrong'' None None example_db)))
     = [Some ''Invalid password'']"
proof -
  have f1: "find (\<lambda>u. user_email u = Some (toLowerCase ''Nobody@acme.com'')) (users example_db) = None"
    by (simp add: example_db_def alice_def carol_def dave_def toLowerCase_def lower_char_def upper_letters_def lower_letters_def)
  have f2: "find (\<lambda>u. user_email u = Some (toLowerCase ''Carol@acme.com'')) (users example_db)
              = Some carol"
    by (simp add: example_db_def alice_def carol_def dave_def toLowerCase_def lower_char_def upper_letters_def lower_letters_def)
  have f3: "find (\<lambda>u. user_email u = Some (toLowerCase ''dave@acme.com'')) (users example_db)
              = Some dave"
    by (simp add: example_db_def alice_def carol_def dave_def toLowerCase_def lower_char_def upper_letters_def lower_letters_def)
  have f4: "find (\<lambda>u. user_email u = Some (toLowerCase ''ALICE@acme.com'')) (users example_db)
              = Some alice"
    by (simp add: example_db_def alice_def carol_def dave_def toLowerCase_def lower_char_def upper_letters_def lower_letters_def)
  have c: "isDisabled carol" "\<not> isDisabled dave" "\<not> truthy (passwordHash dave)"
    "\<not> isDisabled alice" "passwordHash alice = Some ''h:correct-horse''"
    "\<not> example_verify ''wrong'' ''h:correct-horse''"
    by (simp_all add: alice_def carol_def dave_def truthy_def example_verify_def)
  note t1 = loginLocalUser_failure_paths [where email = "''Nobody@acme.com''" and d = example_db
      and v = example_verify and now = 5 and pw = "''x''" and ip = None and ua = None]
  note t2 = loginLocalUser_failure_paths [where email = "''Carol@acme.com''" and d = example_db
      and u = carol and v = example_verify and now = 5 and pw = "''correct-horse''"
      and ip = None and ua = None]
  note t3 = loginLocalUser_failure_paths [where email = "''dave@acme.com''" and d = example_db
      and u = dave and v = example_verify and now = 5 and pw = "''correct-horse''"
      and ip = None and ua = None]
  note t4 = loginLocalUser_failure_paths [where email = "''ALICE@acme.com''" and d = example_db
      and u = alice and v = example_verify and now = 5 and pw = "''wrong''"
      and ip = None and ua = None and h = "''h:correct-horse''"]
  show ?thesis
    using t1 t2 t3 t4 f1 f2 f3 f4 c
    by (simp add: example_db_def)
qed

subsection \<open>Password reset\<close>

lemma find_map_token:
  "find (\<lambda>t. token t = tok) (map (\<lambda>t. if token_id t = i then t\<lparr>usedAt := Some n\<rparr> else t) ts)
     = map_option (\<lambda>t. if token_id t = i then t\<lparr>usedAt := Some n\<rparr> else t)
         (find (\<lambda>t. token t = tok) ts)"
  by (induction ts) auto

lemma resetPassword_read_after_write:
  assumes "resetPassword_read now tok pw d = Inr t"
  shows "resetPassword_read now' tok pw' (resetPassword_write h now t pw d)
           = Inl ''This reset token has already been used''"
proof -
  from assms have f: "find (\<lambda>t. token t = tok) (passwordResetTokens d) = Some t"
    by (auto simp: resetPassword_read_def split: option.splits if_splits)
  show ?thesis
    by (simp add: resetPassword_read_def resetPassword_write_def logAuditEvent_def
        find_map_token f)
qed

text \<open>A call that runs its two phases back to back is the sequential function.\<close>

lemma reset_step_twice:
  "reset_step h now tok pw (reset_step h now tok pw (NotStarted, d))
     = (Returned (fst (resetPassword h now tok pw d)), snd (resetPassword h now tok pw d))"
  by (simp add: reset_step_def resetPassword_def split: sum.splits)

text \<open>
  The schedule that lets the first call finish before the second starts is the
  sequential composition of the two calls.
\<close>

lemma interleave_sequential:
  "interleave h now (tokA, pwA) (tokB, pwB) [True, True, False, False] (NotStarted, NotStarted, d)
     = (Returned (fst (resetPassword h now tokA pwA d)),
        Returned (fst (resetPassword h now tokB pwB (snd (resetPassword h now tokA pwA d)))),
        snd (resetPassword h now tokB pwB (snd (resetPassword h now tokA pwA d))))"
proof -
  obtain c1 d1 where s1: "reset_step h now tokA pwA (NotStarted, d) = (c1, d1)"
    by (cases "reset_step h now tokA pwA (NotStarted, d)")
  obtain c2 d2 where s2: "reset_step h now tokA pwA (c1, d1) = (c2, d2)"
    by (cases "reset_step h now tokA pwA (c1, d1)")
  obtain c3 d3 where s3: "reset_step h now tokB pwB (NotStarted, d2) = (c3, d3)"
    by (cases "reset_step h now tokB pwB (NotStarted, d2)")
  obtain c4 d4 where s4: "reset_step h now tokB pwB (c3, d3) = (c4, d4)"
    by (cases "reset_step h now tokB pwB (c3, d3)")
  from reset_step_twice [of h now tokA pwA d] s1 s2
  have r1: "c2 = Returned (fst (resetPassword h now tokA pwA d))"
    "d2 = snd (resetPassword h now tokA pwA d)" by simp_all
  from reset_step_twice [of h now tokB pwB d2] s3 s4
  have r2: "c4 = Returned (fst (resetPassword h now tokB pwB d2))"
    "d4 = snd (resetPassword h now tokB pwB d2)" by simp_all
  have "interleave h now (tokA, pwA) (tokB, pwB) [True, True, False, False]
          (NotStarted, NotStarted, d) = (c2, c4, d4)"
    by (simp add: s1 s2 s3 s4)
  then show ?thesis by (simp add: r1 r2)
qed

text \<open>
  C4, as the code has it. When one call has returned success before the other starts,
  the other call, with the same token and whatever password and clock reading, fails
  with the already-used error and changes nothing. The guarantee comes from the order
  of the statements alone: the update that marks the token is keyed by the row id only
  and carries no condition on \<^verbatim>\<open>usedAt\<close>.
\<close>

theorem resetPassword_second_call_fails:
  "resetPassword h now tok pw d = (Inr (), d') \<Longrightarrow>
     resetPassword h' now' tok pw' d' = (Inl ''This reset token has already been used'', d')"
proof -
  assume a: "resetPassword h now tok pw d = (Inr (), d')"
  then obtain t where r: "resetPassword_read now tok pw d = Inr t"
    and d': "d' = resetPassword_write h now t pw d"
    by (auto simp: resetPassword_def split: sum.splits)
  show ?thesis
    unfolding d' by (simp add: resetPassword_def resetPassword_read_after_write [OF r])
qed

theorem resetPassword_second_call_fails_witness:
  "resetPassword example_hash 10 ''tok'' ''password-one'' reset_db
     = (Inr (), resetPassword_write example_hash 10
          \<lparr>token_id = ''t1'', token_userId = ''u1'', token = ''tok'', expiresAt = 100,
           usedAt = None\<rparr>
          ''password-one'' reset_db)
   \<and> fst (resetPassword example_hash 11 ''tok'' ''password-two''
        (resetPassword_write example_hash 10
          \<lparr>token_id = ''t1'', token_userId = ''u1'', token = ''tok'', expiresAt = 100,
           usedAt = None\<rparr>
          ''password-one'' reset_db))
     = Inl ''This reset token has already been used''"
proof -
  have a: "resetPassword example_hash 10 ''tok'' ''password-one'' reset_db
     = (Inr (), resetPassword_write example_hash 10
          \<lparr>token_id = ''t1'', token_userId = ''u1'', token = ''tok'', expiresAt = 100,
           usedAt = None\<rparr>
          ''password-one'' reset_db)"
    by (simp add: resetPassword_def resetPassword_read_def reset_db_def)
  show ?thesis
    using a resetPassword_second_call_fails [OF a, of example_hash 11 "''password-two''"]
    by simp
qed

text \<open>
  C4 as stated fails. Two calls with the same valid token whose reads both come before
  either write both return success, and the password of the second writer stays.
\<close>

theorem concurrent_resets_both_succeed:
  "fst (interleave example_hash 10 (''tok'', ''password-one'') (''tok'', ''password-two'')
          [True, False, True, False] (NotStarted, NotStarted, reset_db)) = Returned (Inr ())
   \<and> fst (snd (interleave example_hash 10 (''tok'', ''password-one'') (''tok'', ''password-two'')
          [True, False, True, False] (NotStarted, NotStarted, reset_db))) = Returned (Inr ())
   \<and> map passwordHash (users (snd (snd (interleave example_hash 10 (''tok'', ''password-one'')
          (''tok'', ''password-two'') [True, False, True, False]
          (NotStarted, NotStarted, reset_db)))))
       = [Some ''h:password-two'']"
  by (simp add: reset_step_def resetPassword_read_def resetPassword_write_def logAuditEvent_def
      reset_db_def alice_def example_hash_def)

text \<open>
  C5, as the code has it. The checks run in the order: token absent, token already
  consumed, token past its expiry, password shorter than eight characters. An absent
  token gives the invalid-or-expired error; a consumed token gives the already-used
  error, whether or not it is also past its expiry; a token that is not consumed and is
  past its expiry gives the expired error whatever the new password is; a short
  password on a valid token gives the weak-password error. None of the failures changes
  the store. Otherwise the call succeeds, stores the hash of the new password on the
  token's account, marks the token used and appends one audit event.
\<close>

theorem resetPassword_outcomes:
  "(find (\<lambda>t. token t = tok) (passwordResetTokens d) = None \<longrightarrow>
      resetPassword h now tok pw d = (Inl ''Invalid or expired reset token'', d))
   \<and> (find (\<lambda>t. token t = tok) (passwordResetTokens d) = Some t \<and> usedAt t \<noteq> None \<longrightarrow>
      resetPassword h now tok pw d = (Inl ''This reset token has already been used'', d))
   \<and> (find (\<lambda>t. token t = tok) (passwordResetTokens d) = Some t \<and> usedAt t = None
        \<and> now > expiresAt t \<longrightarrow>
      resetPassword h now tok pw d = (Inl ''This reset token has expired'', d))
   \<and> (find (\<lambda>t. token t = tok) (passwordResetTokens d) = Some t \<and> usedAt t = None
        \<and> now \<le> expiresAt t \<and> length pw < 8 \<longrightarrow>
      resetPassword h now tok pw d = (Inl ''Password must be at least 8 characters'', d))
   \<and> (find (\<lambda>t. token t = tok) (passwordResetTokens d) = Some t \<and> usedAt t = None
        \<and> now \<le> expiresAt t \<and> 8 \<le> length pw \<longrightarrow>
      fst (resetPassword h now tok pw d) = Inr ()
      \<and> users (snd (resetPassword h now tok pw d))
          = map (\<lambda>u. if user_id u = token_userId t
                     then u\<lparr>passwordHash := Some (h pw), user_updatedAt := Some now\<rparr> else u)
              (users d)
      \<and> find (\<lambda>t. token t = tok) (passwordResetTokens (snd (resetPassword h now tok pw d)))
          = Some (t\<lparr>usedAt := Some now\<rparr>)
      \<and> authAuditLog (snd (resetPassword h now tok pw d))
          = authAuditLog d @
            [\<lparr>ev_userId = Some (token_userId t), ev_email = None,
              action = ''password_reset_complete'', provider = Some Local, ipAddress = None,
              userAgent = None, success = True, failureReason = None, metadata = None\<rparr>])"
  by (auto simp: resetPassword_def resetPassword_read_def resetPassword_write_def
      logAuditEvent_def find_map_token)

theorem resetPassword_outcomes_witness:
  "resetPassword example_hash 10 ''nope'' ''password-one'' reset_db
     = (Inl ''Invalid or expired reset token'', reset_db)
   \<and> resetPassword example_hash 10 ''tok'' ''password-one'' used_db
     = (Inl ''This reset token has already been used'', used_db)
   \<and> resetPassword example_hash 101 ''tok'' ''password-one'' reset_db
     = (Inl ''This reset token has expired'', reset_db)
   \<and> resetPassword example_hash 100 ''tok'' ''short'' reset_db
     = (Inl ''Password must be at least 8 characters'', reset_db)
   \<and> fst (resetPassword example_hash 100 ''tok'' ''password-one'' reset_db) = Inr ()
   \<and> map passwordHash (users (snd (resetPassword example_hash 100 ''tok'' ''password-one'' reset_db)))
     = [Some ''h:password-one'']
   \<and> map usedAt (passwordResetTokens (snd (resetPassword example_hash 100 ''tok'' ''password-one'' reset_db)))
     = [Some 100]
   \<and> map action (authAuditLog (snd (resetPassword example_hash 100 ''tok'' ''password-one'' reset_db)))
     = [''password_reset_complete'']"
proof -
  let ?t = "\<lparr>token_id = ''t1'', token_userId = ''u1'', token = ''tok'', expiresAt = 100,
             usedAt = None\<rparr>"
  let ?t' = "\<lparr>token_id = ''t1'', token_userId = ''u1'', token = ''tok'', expiresAt = 100,
             usedAt = Some 50\<rparr>"
  have f0: "find (\<lambda>t. token t = ''nope'') (passwordResetTokens reset_db) = None"
    by (simp add: reset_db_def)
  have f1: "find (\<lambda>t. token t = ''tok'') (passwordResetTokens reset_db) = Some ?t"
    by (simp add: reset_db_def)
  have f2: "find (\<lambda>t. token t = ''tok'') (passwordResetTokens used_db) = Some ?t'"
    by (simp add: used_db_def)
  note a = resetPassword_outcomes [where tok = "''nope''" and d = reset_db and h = example_hash
      and now = 10 and pw = "''password-one''"]
  note b = resetPassword_outcomes [where tok = "''tok''" and d = used_db and h = example_hash
      and now = 10 and pw = "''password-one''" and t = ?t']
  note c = resetPassword_outcomes [where tok = "''tok''" and d = reset_db and h = example_hash
      and now = 101 and pw = "''password-one''" and t = ?t]
  note d = resetPassword_outcomes [where tok = "''tok''" and d = reset_db and h = example_hash
      and now = 100 and pw = "''short''" and t = ?t]
  note e = resetPassword_outcomes [where tok = "''tok''" and d = reset_db and h = example_hash
      and now = 100 and pw = "''password-one''" and t = ?t]
  have e': "map usedAt (passwordResetTokens (snd (resetPassword example_hash 100 ''tok'' ''password-one'' reset_db)))
     = [Some 100]"
    by (simp add: resetPassword_def resetPassword_read_def resetPassword_write_def
        logAuditEvent_def reset_db_def)
  show ?thesis
    using a b c d e f0 f1 f2 e'
    by (simp add: reset_db_def alice_def example_hash_def)
qed

text \<open>
  C5 as stated fails on a token that is both consumed and past its expiry: the call
  answers with the already-used error, not with the invalid-or-expired one.
\<close>

theorem expired_used_token_counterexample:
  "find (\<lambda>t. token t = ''tok'') (passwordResetTokens used_db)
     = Some \<lparr>token_id = ''t1'', token_userId = ''u1'', token = ''tok'', expiresAt = 100,
             usedAt = Some 50\<rparr>
   \<and> (200::int) > 100
   \<and> resetPassword example_hash 200 ''tok'' ''password-one'' used_db
       = (Inl ''This reset token has already been used'', used_db)
   \<and> ''This reset token has already been used'' \<noteq> ''Invalid or expired reset token''
   \<and> ''This reset token has already been used'' \<noteq> ''This reset token has expired''"
  by (simp add: resetPassword_def resetPassword_read_def used_db_def)

subsection \<open>Authorization gates\<close>

text \<open>The outcome of \<^verbatim>\<open>isAdmin\<close> is the same whatever the disabled flag of the session's user.\<close>

lemma isAdmin_ignores_disabled:
  "fst (isAdmin (Some (usr\<lparr>au_isDisabled := b\<rparr>)) d) = fst (isAdmin (Some usr) d)"
  by (simp add: isAdmin_def split: option.splits)

text \<open>
  C1. The claim asks that a session of a disabled account never passes \<^verbatim>\<open>isAdmin\<close>.
  The source's \<^verbatim>\<open>isAdmin\<close> tests \<^verbatim>\<open>req.isAuthenticated()\<close> and the role only; it
  does not run the disabled-account check that \<^verbatim>\<open>isAuthenticated\<close> makes. For the
  session of a disabled account whose CRM profile has the role admin,
  \<^verbatim>\<open>isAuthenticated\<close> answers 403 and ends the session, while \<^verbatim>\<open>isAdmin\<close> calls
  \<^verbatim>\<open>next()\<close> and leaves the session in place.
\<close>

theorem isAdmin_passes_disabled_admin:
  "map_option au_isDisabled (deserializeUser ''u2'' admin_db) = Some True
   \<and> isAuthenticated (deserializeUser ''u2'' admin_db) = (Respond 403 ''Account is disabled'', None)
   \<and> isAdmin (deserializeUser ''u2'' admin_db) admin_db = (Next, deserializeUser ''u2'' admin_db)"
  by (simp add: deserializeUser_def isAuthenticated_def isAdmin_def admin_db_def carol_def alice_def)

subsection \<open>The Microsoft callback\<close>

lemma getConfig_tenant_nonempty: "getConfig ext = Some c \<Longrightarrow> cfg_tenantId c \<noteq> []"
  by (auto simp: getConfig_def truthy_def split: if_splits option.splits)

lemma ex_config: "getConfig example_outside
    = Some \<lparr>clientId = ''client-1'', clientSecret = ''s3cret'', cfg_tenantId = ''contoso''\<rparr>"
  by (simp add: getConfig_def example_outside_def truthy_def)

lemma ex_state: "validateState ''st'' 1000 example_pending = (True, Map.empty)"
  by (simp add: validateState_def example_pending_def STATE_EXPIRY_MS_def)

lemma ex_fields:
  "jwt_decode example_outside ''idtoken''
     = Some \<lparr>header_kid = Some ''k1'', payload_tid = Some ''contoso''\<rparr>"
  "jwks_getSigningKey example_outside ''contoso'' ''k1'' = Some ''PUBKEY''"
  "jwt_verify example_outside ''idtoken'' ''PUBKEY''
     \<lparr>algorithms = [''RS256''], audience = ''client-1'',
      issuer = [''https://login.microsoftonline.com/contoso/v2.0'',
                ''https://sts.windows.net/contoso/''],
      clockTolerance = 300\<rparr> = Some mallory_claims"
  "graph_organization example_outside accessToken = None"
  by (simp_all add: example_outside_def)

lemma ex_verify: "verifyIdToken example_outside ''idtoken'' = Some mallory_claims"
  by (simp add: verifyIdToken_def ex_config getSigningKey_def ex_fields truthy_def Let_def)

lemma ex_lower: "toLowerCase ''Victim@acme.com'' = ''victim@acme.com''"
  "toLowerCase ''mallory@evil.example'' = ''mallory@evil.example''"
  by (simp_all add: toLowerCase_def lower_char_def upper_letters_def lower_letters_def)

lemma ex_bind_upn:
  "handleMicrosoftSsoCallback 1000 ''u9'' upn_profile ''contoso'' None None empty_db
     = (Inr \<lparr>user_id = ''u9'', user_email = Some ''victim@acme.com'',
              user_firstName = Some ''Vic'', user_lastName = None,
              authProvider = Microsoft, passwordHash = None,
              microsoftUserId = Some ''ms-7'', microsoftTenantId = Some ''contoso'',
              isDisabled = False, emailVerified = True, user_createdAt = Some 1000,
              user_updatedAt = Some 1000, lastLoginAt = None\<rparr>,
        \<lparr>users = [\<lparr>user_id = ''u9'', user_email = Some ''victim@acme.com'',
              user_firstName = Some ''Vic'', user_lastName = None,
              authProvider = Microsoft, passwordHash = None,
              microsoftUserId = Some ''ms-7'', microsoftTenantId = Some ''contoso'',
              isDisabled = False, emailVerified = True, user_createdAt = Some 1000,
              user_updatedAt = Some 1000, lastLoginAt = None\<rparr>],
         passwordResetTokens = [], ssoSettings = [],
         authAuditLog = [\<lparr>ev_userId = Some ''u9'', ev_email = Some ''victim@acme.com'',
             action = ''sso_login'', provider = Some Microsoft, ipAddress = None,
             userAgent = None, success = True, failureReason = None,
             metadata = Some (''contoso'', ''ms-7'')\<rparr>],
         crmUsers = []\<rparr>)"
proof -
  have e: "profileEmail upn_profile = ''victim@acme.com''"
    by (simp add: profileEmail_def upn_profile_def truthy_def ex_lower)
  show ?thesis
    by (simp add: handleMicrosoftSsoCallback_def e getSsoSettings_def empty_db_def
        logAuditEvent_def Let_def)
       (simp add: upn_profile_def js_or_def truthy_def)
qed

text \<open>
  C2. When the token response carries no \<^verbatim>\<open>id_token\<close> (the field is missing or
  empty), the callback goes from the token exchange straight to the profile fetch and
  hands the fetched profile to the account binder, with the tenant taken from the
  organization lookup or else from the configuration. Nothing of the result depends on
  the token decoder, the key set or the signature check: replacing all three leaves
  the call unchanged, and neither the e-mail cross-check nor a tenant claim takes part.
\<close>

theorem handleCallback_without_id_token:
  assumes "validateState state now ps = (True, ps')"
    and "getConfig ext = Some config"
    and "exchangeCodeForToken ext code = Some tokenResponse"
    and "\<not> truthy (id_token tokenResponse)"
  shows "handleCallback ext now newId code state ip ua (ps, d) =
           (case getUserProfile ext (access_token tokenResponse) of
              None \<Rightarrow> (Inl ''Failed to fetch Microsoft profile'', ps', d)
            | Some profile \<Rightarrow>
                (case handleMicrosoftSsoCallback now newId profile
                        (case getOrganizationTenantId ext (access_token tokenResponse) of
                           Some org \<Rightarrow> org
                         | None \<Rightarrow> cfg_tenantId config)
                        ip ua d of
                   (res, d') \<Rightarrow> (res, ps', d')))
         \<and> handleCallback (ext\<lparr>jwt_decode := dec, jwks_getSigningKey := keys, jwt_verify := ver\<rparr>)
               now newId code state ip ua (ps, d)
             = handleCallback ext now newId code state ip ua (ps, d)"
proof -
  have ne: "cfg_tenantId config \<noteq> []" using assms(2) by (rule getConfig_tenant_nonempty)
  let ?ext' = "ext\<lparr>jwt_decode := dec, jwks_getSigningKey := keys, jwt_verify := ver\<rparr>"
  have "getConfig ?ext' = getConfig ext" by (simp add: getConfig_def)
  then have c': "getConfig ?ext' = Some config" using assms(2) by simp
  have x': "exchangeCodeForToken ?ext' code = Some tokenResponse"
    using assms(2,3) c' by (simp add: exchangeCodeForToken_def)
  have p': "getUserProfile ?ext' = getUserProfile ext"
    by (simp add: getUserProfile_def fun_eq_iff)
  have o': "getOrganizationTenantId ?ext' = getOrganizationTenantId ext"
    by (simp add: getOrganizationTenantId_def fun_eq_iff)
  have main: "\<And>e. getConfig e = Some config \<Longrightarrow> exchangeCodeForToken e code = Some tokenResponse \<Longrightarrow>
     handleCallback e now newId code state ip ua (ps, d) =
           (case getUserProfile e (access_token tokenResponse) of
              None \<Rightarrow> (Inl ''Failed to fetch Microsoft profile'', ps', d)
            | Some profile \<Rightarrow>
                (case handleMicrosoftSsoCallback now newId profile
                        (case getOrganizationTenantId e (access_token tokenResponse) of
                           Some org \<Rightarrow> org
                         | None \<Rightarrow> cfg_tenantId config)
                        ip ua d of
                   (res, d') \<Rightarrow> (res, ps', d')))"
    using assms(1,4) ne
    by (simp add: handleCallback_def truthy_def split: option.splits)
  show ?thesis
    unfolding main [OF assms(2,3)] main [OF c' x'] p' o' by simp
qed

theorem handleCallback_without_id_token_witness:
  "map_sum id user_email
     (fst (handleCallback example_outside 1000 ''u9'' ''code-3'' ''st'' None None
            (example_pending, empty_db)))
     = Inr (Some ''victim@acme.com'')
   \<and> handleCallback
        (example_outside\<lparr>jwt_decode := (\<lambda>t. None), jwks_getSigningKey := (\<lambda>tenant kid. None),
           jwt_verify := (\<lambda>t key opts. None)\<rparr>)
        1000 ''u9'' ''code-3'' ''st'' None None (example_pending, empty_db)
     = handleCallback example_outside 1000 ''u9'' ''code-3'' ''st'' None None
         (example_pending, empty_db)"
proof -
  have x: "exchangeCodeForToken example_outside ''code-3''
             = Some \<lparr>access_token = ''at-upn'', id_token = None\<rparr>"
    by (simp add: exchangeCodeForToken_def ex_config) (simp add: example_outside_def)
  have n: "\<not> truthy (id_token \<lparr>access_token = ''at-upn'', id_token = None\<rparr>)"
    by (simp add: truthy_def)
  have p: "getUserProfile example_outside ''at-upn'' = Some upn_profile"
    by (simp add: getUserProfile_def example_outside_def)
  have o: "getOrganizationTenantId example_outside ''at-upn'' = None"
    by (simp add: getOrganizationTenantId_def ex_fields)
  show ?thesis
    using handleCallback_without_id_token [OF ex_state ex_config x n,
        where newId = "''u9''" and ip = None and ua = None and d = empty_db
          and dec = "\<lambda>t. None" and keys = "\<lambda>tenant kid. None" and ver = "\<lambda>t key opts. None"]
    by (simp add: p o ex_bind_upn)
qed

text \<open>
  C3, as the code has it. When the ID token was verified, the fetched profile has a
  non-empty \<^verbatim>\<open>mail\<close> field, and the token's \<^verbatim>\<open>email\<close> claim (or, when that is
  missing or empty, its \<^verbatim>\<open>preferred_username\<close> claim) is non-empty and differs from
  \<^verbatim>\<open>mail\<close> after lower-casing both, the callback fails with the mismatch error
  before the binder runs and the store is unchanged.
\<close>

theorem handleCallback_email_mismatch:
  assumes "validateState state now ps = (True, ps')"
    and "exchangeCodeForToken ext code = Some tokenResponse"
    and "id_token tokenResponse = Some idToken" and "idToken \<noteq> []"
    and "verifyIdToken ext idToken = Some claims"
    and "getUserProfile ext (access_token tokenResponse) = Some profile"
    and "mail profile = Some m" and "m \<noteq> []"
    and "js_or (claim_email claims) (preferred_username claims) = Some e" and "e \<noteq> []"
    and "toLowerCase e \<noteq> toLowerCase m"
  shows "handleCallback ext now newId code state ip ua (ps, d)
           = (Inl ''Authentication data mismatch'', ps', d)"
  using assms by (simp add: handleCallback_def truthy_def)

theorem handleCallback_email_mismatch_witness:
  "handleCallback example_outside 1000 ''u9'' ''code-2'' ''st'' None None
     (example_pending, empty_db)
     = (Inl ''Authentication data mismatch'', Map.empty, empty_db)"
proof -
  have x: "exchangeCodeForToken example_outside ''code-2''
             = Some \<lparr>access_token = ''at-mail'', id_token = Some ''idtoken''\<rparr>"
    by (simp add: exchangeCodeForToken_def ex_config) (simp add: example_outside_def)
  have p: "getUserProfile example_outside
             (access_token \<lparr>access_token = ''at-mail'', id_token = Some ''idtoken''\<rparr>)
           = Some mail_profile"
    by (simp add: getUserProfile_def example_outside_def)
  have m: "mail mail_profile = Some ''Victim@acme.com''"
    by (simp add: mail_profile_def)
  have j: "js_or (claim_email mallory_claims) (preferred_username mallory_claims)
             = Some ''mallory@evil.example''"
    by (simp add: js_or_def mallory_claims_def truthy_def)
  have ne: "toLowerCase ''mallory@evil.example'' \<noteq> toLowerCase ''Victim@acme.com''"
    by (simp add: ex_lower)
  show ?thesis
    by (rule handleCallback_email_mismatch [OF ex_state x _ _ ex_verify p m _ j _ ne]) simp_all
qed

text \<open>
  C3 as stated fails when the profile has no \<^verbatim>\<open>mail\<close> field. The binder then takes
  the profile's \<^verbatim>\<open>userPrincipalName\<close> as the address, the cross-check is skipped, and
  a verified token for one address creates an account under another.
\<close>

theorem unchecked_principal_name_counterexample:
  "map_option claim_email (verifyIdToken example_outside ''idtoken'') = Some (Some ''mallory@evil.example'')
   \<and> getUserProfile example_outside ''at-upn'' = Some upn_profile
   \<and> profileEmail upn_profile = ''victim@acme.com''
   \<and> toLowerCase ''mallory@evil.example'' \<noteq> profileEmail upn_profile
   \<and> map_sum id user_email
        (fst (handleCallback example_outside 1000 ''u9'' ''code-1'' ''st'' None None
               (example_pending, empty_db)))
       = Inr (Some ''victim@acme.com'')
   \<and> map user_email
        (users (snd (snd (handleCallback example_outside 1000 ''u9'' ''code-1'' ''st'' None None
               (example_pending, empty_db)))))
       = [Some ''victim@acme.com'']"
proof -
  have x: "exchangeCodeForToken example_outside ''code-1''
             = Some \<lparr>access_token = ''at-upn'', id_token = Some ''idtoken''\<rparr>"
    by (simp add: exchangeCodeForToken_def ex_config) (simp add: example_outside_def)
  have p: "getUserProfile example_outside ''at-upn'' = Some upn_profile"
    by (simp add: getUserProfile_def example_outside_def)
  have e: "profileEmail upn_profile = ''victim@acme.com''"
    by (simp add: profileEmail_def upn_profile_def truthy_def ex_lower)
  have h: "handleCallback example_outside 1000 ''u9'' ''code-1'' ''st'' None None
               (example_pending, empty_db)
            = (case handleMicrosoftSsoCallback 1000 ''u9'' upn_profile ''contoso'' None None empty_db
               of (res, d') \<Rightarrow> (res, Map.empty, d'))"
    by (simp add: handleCallback_def ex_state x p ex_verify truthy_def Let_def)
       (simp add: mallory_claims_def upn_profile_def truthy_def)
  show ?thesis
    by (simp add: h ex_bind_upn p e ex_verify ex_lower) (simp add: mallory_claims_def)
qed

subsection \<open>Account binding\<close>

lemma find_id_map:
  assumes "\<And>u. user_id (f u) = user_id u"
  shows "find (\<lambda>u. user_id u = i) (map f xs) = map_option f (find (\<lambda>u. user_id u = i) xs)"
  by (induction xs) (auto simp: assms)

lemma find_id_distinct:
  "distinct (map user_id xs) \<Longrightarrow> usr \<in> set xs \<Longrightarrow> find (\<lambda>u. user_id u = user_id usr) xs = Some usr"
  by (induction xs) (auto simp: image_iff)

lemma find_Some_mem: "find P xs = Some x \<Longrightarrow> x \<in> set xs \<and> P x"
  by (induction xs) (auto split: if_splits)

lemma ex_lower2:
  "toLowerCase ''Erin@acme.com'' = ''erin@acme.com''"
  "toLowerCase ''frank@acme.com'' = ''frank@acme.com''"
  "toLowerCase ''alice@acme.com'' = ''alice@acme.com''"
  "toLowerCase ''bob@other.com'' = ''bob@other.com''"
  by (simp_all add: toLowerCase_def lower_char_def upper_letters_def lower_letters_def)

lemma ex_profile_emails:
  "profileEmail erin_profile = ''erin@acme.com''"
  "profileEmail alice_profile = ''alice@acme.com''"
  "profileEmail frank_profile = ''frank@acme.com''"
  by (simp_all add: profileEmail_def erin_profile_def alice_profile_def frank_profile_def
      truthy_def ex_lower2)

text \<open>
  The origin that a successful federated login leaves on an existing account is local
  when the stored origin was local and federated otherwise; the password hash is not
  read and stays as it was.
\<close>

lemma sso_bind_origin_rule:
  assumes "distinct (map user_id (users d))"
    and "find (\<lambda>u. user_email u = Some (profileEmail p)) (users d) = Some usr"
    and "handleMicrosoftSsoCallback now newId p tenantId ip ua d = (Inr usr', d')"
  shows "\<not> isDisabled usr
         \<and> authProvider usr' = (if authProvider usr = Local then Local else Microsoft)
         \<and> passwordHash usr' = passwordHash usr
         \<and> user_id usr' = user_id usr
         \<and> find (\<lambda>u. user_id u = user_id usr) (users d') = Some usr'"
proof -
  let ?f = "\<lambda>u. if user_id u = user_id usr
                  then u\<lparr>microsoftUserId := Some (profile_id p),
                         microsoftTenantId := Some tenantId,
                         authProvider := (if authProvider usr = Local then Local else Microsoft),
                         user_firstName := js_or (givenName p) (user_firstName usr),
                         user_lastName := js_or (surname p) (user_lastName usr),
                         lastLoginAt := Some now,
                         user_updatedAt := Some now\<rparr>
                  else u"
  have mem: "usr \<in> set (users d)" using find_Some_mem [OF assms(2)] by simp
  have fid: "find (\<lambda>u. user_id u = user_id usr) (users d) = Some usr"
    by (rule find_id_distinct [OF assms(1) mem])
  have fm: "find (\<lambda>u. user_id u = user_id usr) (map ?f (users d)) = Some (?f usr)"
    by (subst find_id_map) (simp_all add: fid)
  from assms(3) have en: "\<not> isDisabled usr"
    by (auto simp: handleMicrosoftSsoCallback_def Let_def assms(2) split: if_splits)
  from assms(3) en have r: "usr' = ?f usr"
    and d': "users d' = map ?f (users d)"
    by (auto simp: handleMicrosoftSsoCallback_def Let_def assms(2) fm logAuditEvent_def
        split: if_splits)
  show ?thesis using en fm by (simp add: r d')
qed

subsection \<open>The store invariant\<close>

text \<open>
  The empty store satisfies the invariant, and every function of \<^verbatim>\<open>AuthService\<close>
  that writes the accounts or the reset tokens keeps it, given that an inserted
  account gets an id that is not in use.
\<close>

lemma store_inv_logAuditEvent [simp]: "store_inv (logAuditEvent e d) = store_inv d"
  by (simp add: store_inv_def unique_ids_def password_implies_local_def tokens_of_local_def
      logAuditEvent_def)

lemma unique_ids_local:
  assumes "unique_ids d" and "u \<in> set (users d)" and "v \<in> set (users d)"
    and "user_id u = user_id v"
  shows "u = v"
  using assms unfolding unique_ids_def by (metis distinct_map inj_onD)

lemma store_inv_map_users:
  assumes inv: "store_inv d"
    and us: "users d' = map f (users d)"
    and ts: "map token_userId (passwordResetTokens d') = map token_userId (passwordResetTokens d)"
    and ids: "\<And>u. u \<in> set (users d) \<Longrightarrow> user_id (f u) = user_id u"
    and loc: "\<And>u. u \<in> set (users d) \<Longrightarrow> authProvider u = Local \<Longrightarrow> authProvider (f u) = Local"
    and pw: "\<And>u. u \<in> set (users d) \<Longrightarrow> passwordHash (f u) \<noteq> None \<Longrightarrow> authProvider (f u) = Local"
  shows "store_inv d'"
proof -
  have "map user_id (users d') = map user_id (users d)"
    using ids by (simp add: us)
  then have u: "unique_ids d'" using inv by (simp add: store_inv_def unique_ids_def)
  have p: "password_implies_local d'"
    using pw by (auto simp: password_implies_local_def us)
  have "set (map token_userId (passwordResetTokens d')) = set (map token_userId (passwordResetTokens d))"
    using ts by simp
  then have tset: "token_userId ` set (passwordResetTokens d') = token_userId ` set (passwordResetTokens d)"
    by simp
  have t: "tokens_of_local d'"
    unfolding tokens_of_local_def
  proof
    fix t assume "t \<in> set (passwordResetTokens d')"
    then have "token_userId t \<in> token_userId ` set (passwordResetTokens d)"
      using tset by blast
    then obtain t0 where t0: "t0 \<in> set (passwordResetTokens d)" "token_userId t0 = token_userId t"
      by auto
    with inv obtain u where u: "u \<in> set (users d)" "user_id u = token_userId t0" "authProvider u = Local"
      by (auto simp: store_inv_def tokens_of_local_def)
    have "f u \<in> set (users d')" using u(1) by (simp add: us)
    moreover have "user_id (f u) = token_userId t" using ids [OF u(1)] u(2) t0(2) by simp
    moreover have "authProvider (f u) = Local" using loc [OF u(1) u(3)] .
    ultimately show "\<exists>u\<in>set (users d'). user_id u = token_userId t \<and> authProvider u = Local"
      by blast
  qed
  show ?thesis using u p t by (simp add: store_inv_def)
qed

lemma store_inv_add_user:
  assumes inv: "store_inv d"
    and fresh: "user_id nu \<notin> user_id ` set (users d)"
    and pw: "passwordHash nu \<noteq> None \<longrightarrow> authProvider nu = Local"
  shows "store_inv (d\<lparr>users := users d @ [nu]\<rparr>)"
  using assms
  by (auto simp: store_inv_def unique_ids_def password_implies_local_def tokens_of_local_def)

lemma store_inv_add_token:
  assumes inv: "store_inv d"
    and own: "u \<in> set (users d)" "user_id u = token_userId t" "authProvider u = Local"
  shows "store_inv (d\<lparr>passwordResetTokens := passwordResetTokens d @ [t]\<rparr>)"
  using assms
  by (auto simp: store_inv_def unique_ids_def password_implies_local_def tokens_of_local_def)

lemma store_inv_update:
  assumes inv: "store_inv d"
    and ids: "\<And>u. u \<in> set (users d) \<Longrightarrow> user_id (f u) = user_id u"
    and loc: "\<And>u. u \<in> set (users d) \<Longrightarrow> authProvider u = Local \<Longrightarrow> authProvider (f u) = Local"
    and pw: "\<And>u. u \<in> set (users d) \<Longrightarrow> passwordHash (f u) \<noteq> None \<Longrightarrow> authProvider (f u) = Local"
    and tk: "\<And>t. token_userId (g t) = token_userId t"
  shows "store_inv (d\<lparr>users := map f (users d),
                     passwordResetTokens := map g (passwordResetTokens d)\<rparr>)"
  by (rule store_inv_map_users [OF inv, where f = f]) (simp_all add: ids loc pw tk)

lemma store_inv_update_users:
  assumes inv: "store_inv d"
    and ids: "\<And>u. u \<in> set (users d) \<Longrightarrow> user_id (f u) = user_id u"
    and loc: "\<And>u. u \<in> set (users d) \<Longrightarrow> authProvider u = Local \<Longrightarrow> authProvider (f u) = Local"
    and pw: "\<And>u. u \<in> set (users d) \<Longrightarrow> passwordHash (f u) \<noteq> None \<Longrightarrow> authProvider (f u) = Local"
  shows "store_inv (d\<lparr>users := map f (users d)\<rparr>)"
  by (rule store_inv_map_users [OF inv, where f = f]) (simp_all add: ids loc pw)

lemma inv_password_local:
  "store_inv d \<Longrightarrow> u \<in> set (users d) \<Longrightarrow> passwordHash u \<noteq> None \<Longrightarrow> authProvider u = Local"
  by (auto simp: store_inv_def password_implies_local_def)

lemma store_inv_registerLocalUser:
  assumes inv: "store_inv d" and fresh: "newId \<notin> user_id ` set (users d)"
  shows "store_inv (snd (registerLocalUser h now newId email password firstName lastName d))"
proof (cases "find (\<lambda>u. user_email u = Some (toLowerCase email)) (users d)")
  case (Some existingUser)
  then show ?thesis using inv by (simp add: registerLocalUser_def)
next
  case None
  show ?thesis
  proof (cases "length password < 8")
    case True
    then show ?thesis using inv None by (simp add: registerLocalUser_def)
  next
    case False
    have "store_inv (d\<lparr>users := users d @
            [\<lparr>user_id = newId, user_email = Some (toLowerCase email),
              user_firstName = js_or firstName None, user_lastName = js_or lastName None,
              authProvider = Local, passwordHash = Some (h password),
              microsoftUserId = None, microsoftTenantId = None, isDisabled = False,
              emailVerified = False, user_createdAt = Some now,
              user_updatedAt = Some now, lastLoginAt = None\<rparr>]\<rparr>)"
      by (rule store_inv_add_user [OF inv]) (simp_all add: fresh)
    then show ?thesis using None False by (simp add: registerLocalUser_def Let_def)
  qed
qed

lemma store_inv_loginLocalUser:
  assumes inv: "store_inv d"
  shows "store_inv (snd (loginLocalUser v now email password ip ua d))"
proof (cases "find (\<lambda>u. user_email u = Some (toLowerCase email)) (users d)")
  case None
  then show ?thesis using inv by (simp add: loginLocalUser_def)
next
  case (Some usr)
  have "store_inv (d\<lparr>users := map (\<lambda>u. if user_id u = user_id usr
                                          then u\<lparr>lastLoginAt := Some now\<rparr> else u) (users d)\<rparr>)"
    by (rule store_inv_update_users [OF inv]) (auto dest: inv_password_local [OF inv] split: if_splits)
  then show ?thesis using inv Some by (simp add: loginLocalUser_def)
qed

lemma store_inv_createPasswordResetToken:
  assumes inv: "store_inv d"
  shows "store_inv (snd (createPasswordResetToken now newId tokenValue email d))"
proof (cases "find (\<lambda>u. user_email u = Some (toLowerCase email)) (users d)")
  case None
  then show ?thesis using inv by (simp add: createPasswordResetToken_def)
next
  case (Some usr)
  show ?thesis
  proof (cases "authProvider usr = Local")
    case False
    then show ?thesis using inv Some by (simp add: createPasswordResetToken_def)
  next
    case True
    have mem: "usr \<in> set (users d)" using find_Some_mem [OF Some] by simp
    have "store_inv (d\<lparr>passwordResetTokens := passwordResetTokens d @
            [\<lparr>token_id = newId, token_userId = user_id usr, token = tokenValue,
              expiresAt = now + RESET_TOKEN_EXPIRY_HOURS * 60 * 60 * 1000,
              usedAt = None\<rparr>]\<rparr>)"
      by (rule store_inv_add_token [OF inv mem]) (simp_all add: True)
    then show ?thesis using Some True by (simp add: createPasswordResetToken_def)
  qed
qed

lemma store_inv_resetPassword:
  assumes inv: "store_inv d"
  shows "store_inv (snd (resetPassword h now tok newPassword d))"
proof (cases "resetPassword_read now tok newPassword d")
  case (Inl err)
  then show ?thesis using inv by (simp add: resetPassword_def)
next
  case (Inr resetToken)
  then have "find (\<lambda>t. token t = tok) (passwordResetTokens d) = Some resetToken"
    by (auto simp: resetPassword_read_def split: option.splits if_splits)
  then have tm: "resetToken \<in> set (passwordResetTokens d)"
    using find_Some_mem by fastforce
  then obtain owner where o: "owner \<in> set (users d)" "user_id owner = token_userId resetToken"
    "authProvider owner = Local"
    using inv by (auto simp: store_inv_def tokens_of_local_def)
  have own: "\<And>u. u \<in> set (users d) \<Longrightarrow> user_id u = token_userId resetToken
               \<Longrightarrow> authProvider u = Local"
    using unique_ids_local [of d _ owner] o inv by (auto simp: store_inv_def)
  have "store_inv
          (d\<lparr>users :=
               map (\<lambda>u. if user_id u = token_userId resetToken
                         then u\<lparr>passwordHash := Some (h newPassword),
                                user_updatedAt := Some now\<rparr>
                         else u) (users d),
             passwordResetTokens :=
               map (\<lambda>t. if token_id t = token_id resetToken then t\<lparr>usedAt := Some now\<rparr> else t)
                 (passwordResetTokens d)\<rparr>)"
    by (rule store_inv_update [OF inv]) (auto dest: inv_password_local [OF inv] own split: if_splits)
  then show ?thesis using Inr by (simp add: resetPassword_def resetPassword_write_def)
qed

lemma store_inv_handleMicrosoftSsoCallback:
  assumes inv: "store_inv d" and fresh: "newId \<notin> user_id ` set (users d)"
  shows "store_inv (snd (handleMicrosoftSsoCallback now newId p tenantId ip ua d))"
proof (cases "find (\<lambda>u. user_email u = Some (profileEmail p)) (users d)")
  case None
  have "store_inv (d\<lparr>users := users d @
            [\<lparr>user_id = newId, user_email = Some (profileEmail p),
              user_firstName = js_or (givenName p) None,
              user_lastName = js_or (surname p) None,
              authProvider = Microsoft, passwordHash = None,
              microsoftUserId = Some (profile_id p),
              microsoftTenantId = Some tenantId, isDisabled = False,
              emailVerified = True, user_createdAt = Some now,
              user_updatedAt = Some now, lastLoginAt = None\<rparr>]\<rparr>)"
    by (rule store_inv_add_user [OF inv]) (simp_all add: fresh)
  then show ?thesis using inv None
    by (simp add: handleMicrosoftSsoCallback_def Let_def)
next
  case (Some usr)
  have mem: "usr \<in> set (users d)" using find_Some_mem [OF Some] by simp
  have same: "\<And>u. u \<in> set (users d) \<Longrightarrow> user_id u = user_id usr \<Longrightarrow> u = usr"
    using unique_ids_local [of d _ usr] mem inv by (auto simp: store_inv_def)
  show ?thesis
  proof (cases "authProvider usr = Local")
    case True
    have
      "store_inv (d\<lparr>users :=
              map (\<lambda>u. if user_id u = user_id usr
                        then u\<lparr>microsoftUserId := Some (profile_id p),
                               microsoftTenantId := Some tenantId,
                               authProvider := Local,
                               user_firstName := js_or (givenName p) (user_firstName usr),
                               user_lastName := js_or (surname p) (user_lastName usr),
                               lastLoginAt := Some now,
                               user_updatedAt := Some now\<rparr>
                        else u) (users d)\<rparr>)"
      by (rule store_inv_update_users [OF inv])
         (auto dest: inv_password_local [OF inv] split: if_splits)
    then show ?thesis using inv Some True
      by (simp add: handleMicrosoftSsoCallback_def Let_def split: option.splits)
  next
    case False
    have
      "store_inv (d\<lparr>users :=
              map (\<lambda>u. if user_id u = user_id usr
                        then u\<lparr>microsoftUserId := Some (profile_id p),
                               microsoftTenantId := Some tenantId,
                               authProvider := Microsoft,
                               user_firstName := js_or (givenName p) (user_firstName usr),
                               user_lastName := js_or (surname p) (user_lastName usr),
                               lastLoginAt := Some now,
                               user_updatedAt := Some now\<rparr>
                        else u) (users d)\<rparr>)"
      using False
      by (intro store_inv_update_users [OF inv])
         (auto dest: inv_password_local [OF inv] same split: if_splits)
    then show ?thesis using inv Some False
      by (simp add: handleMicrosoftSsoCallback_def Let_def split: option.splits)
  qed
qed

lemma store_inv_unlinkMicrosoftAccount:
  assumes inv: "store_inv d"
  shows "store_inv (snd (unlinkMicrosoftAccount now userId d))"
proof (cases "find (\<lambda>u. user_id u = userId) (users d)")
  case None
  then show ?thesis using inv by (simp add: unlinkMicrosoftAccount_def)
next
  case (Some usr)
  have "store_inv (d\<lparr>users :=
                    map (\<lambda>u. if user_id u = userId
                              then u\<lparr>microsoftUserId := None, microsoftTenantId := None,
                                     authProvider := Local, user_updatedAt := Some now\<rparr>
                              else u) (users d)\<rparr>)"
    by (rule store_inv_update_users [OF inv]) (auto dest: inv_password_local [OF inv] split: if_splits)
  then show ?thesis using inv Some by (simp add: unlinkMicrosoftAccount_def)
qed

lemma store_inv_linkMicrosoftAccount:
  assumes inv: "store_inv d"
  shows "store_inv (snd (linkMicrosoftAccount now userId msUserId tenantId d))"
proof (cases "find (\<lambda>u. user_id u = userId) (users d)")
  case None
  then show ?thesis using inv by (simp add: linkMicrosoftAccount_def)
next
  case (Some usr)
  have "store_inv (d\<lparr>users :=
                  map (\<lambda>u. if user_id u = userId
                            then u\<lparr>microsoftUserId := Some msUserId,
                                   microsoftTenantId := Some tenantId,
                                   user_updatedAt := Some now\<rparr>
                            else u) (users d)\<rparr>)"
    by (rule store_inv_update_users [OF inv]) (auto dest: inv_password_local [OF inv] split: if_splits)
  then show ?thesis using inv Some by (simp add: linkMicrosoftAccount_def)
qed

lemma store_inv_disableUser:
  assumes inv: "store_inv d"
  shows "store_inv (snd (disableUser now userId d))"
proof (cases "find (\<lambda>u. user_id u = userId) (users d)")
  case None
  then show ?thesis using inv by (simp add: disableUser_def)
next
  case (Some usr)
  have "store_inv (d\<lparr>users :=
                  map (\<lambda>u. if user_id u = userId
                            then u\<lparr>isDisabled := True, user_updatedAt := Some now\<rparr> else u)
                    (users d)\<rparr>)"
    by (rule store_inv_update_users [OF inv]) (auto dest: inv_password_local [OF inv] split: if_splits)
  then show ?thesis using inv Some by (simp add: disableUser_def)
qed

lemma store_inv_enableUser:
  assumes inv: "store_inv d"
  shows "store_inv (snd (enableUser now userId d))"
proof (cases "find (\<lambda>u. user_id u = userId) (users d)")
  case None
  then show ?thesis using inv by (simp add: enableUser_def)
next
  case (Some usr)
  have "store_inv (d\<lparr>users :=
                  map (\<lambda>u. if user_id u = userId
                            then u\<lparr>isDisabled := False, user_updatedAt := Some now\<rparr> else u)
                    (users d)\<rparr>)"
    by (rule store_inv_update_users [OF inv]) (auto dest: inv_password_local [OF inv] split: if_splits)
  then show ?thesis using inv Some by (simp add: enableUser_def)
qed

lemma store_inv_empty:
  "store_inv \<lparr>users = [], passwordResetTokens = [], ssoSettings = ss, authAuditLog = [],
              crmUsers = []\<rparr>"
  by (simp add: store_inv_def unique_ids_def password_implies_local_def tokens_of_local_def)

subsection \<open>Origin and password on binding\<close>

text \<open>
  The example store is what registering Alice in the empty store and then provisioning
  Frank by a first federated login leave.
\<close>

lemma bind_db_reached:
  "snd (handleMicrosoftSsoCallback 1 ''u6'' frank_profile ''contoso'' None None
         (snd (registerLocalUser example_hash 0 ''u1'' ''Alice@acme.com'' ''correct-horse''
                (Some ''Alice'') None empty_db)))
     = bind_db"
proof -
  have l: "toLowerCase ''Alice@acme.com'' = ''alice@acme.com''"
    by (simp add: toLowerCase_def lower_char_def upper_letters_def lower_letters_def)
  have r: "snd (registerLocalUser example_hash 0 ''u1'' ''Alice@acme.com'' ''correct-horse''
                (Some ''Alice'') None empty_db)
             = empty_db\<lparr>users := [alice],
                 authAuditLog :=
                   [\<lparr>ev_userId = Some ''u1'', ev_email = Some ''alice@acme.com'',
                     action = ''register'', provider = Some Local, ipAddress = None,
                     userAgent = None, success = True, failureReason = None,
                     metadata = None\<rparr>]\<rparr>"
    by (simp add: registerLocalUser_def l empty_db_def Let_def logAuditEvent_def alice_def
        example_hash_def js_or_def truthy_def)
  show ?thesis
    unfolding r
    by (simp add: handleMicrosoftSsoCallback_def ex_profile_emails getSsoSettings_def
        logAuditEvent_def Let_def empty_db_def alice_def)
       (simp add: bind_db_def frank_def alice_def frank_profile_def erin_profile_def
        js_or_def truthy_def)
qed

text \<open>So the example store satisfies the invariant.\<close>

lemma store_inv_bind_db: "store_inv bind_db"
proof -
  let ?d1 = "snd (registerLocalUser example_hash 0 ''u1'' ''Alice@acme.com'' ''correct-horse''
                (Some ''Alice'') None empty_db)"
  have e: "store_inv empty_db"
    unfolding empty_db_def by (rule store_inv_empty)
  have 1: "store_inv ?d1"
    by (rule store_inv_registerLocalUser [OF e]) (simp add: empty_db_def)
  have l: "toLowerCase ''Alice@acme.com'' = ''alice@acme.com''"
    by (simp add: toLowerCase_def lower_char_def upper_letters_def lower_letters_def)
  have u: "map user_id (users ?d1) = [''u1'']"
    by (simp add: registerLocalUser_def l empty_db_def Let_def logAuditEvent_def)
  have f: "''u6'' \<notin> user_id ` set (users ?d1)"
  proof -
    have "user_id ` set (users ?d1) = set (map user_id (users ?d1))" by simp
    then show ?thesis unfolding u by simp
  qed
  have "store_inv (snd (handleMicrosoftSsoCallback 1 ''u6'' frank_profile ''contoso'' None None ?d1))"
    by (rule store_inv_handleMicrosoftSsoCallback [OF 1 f])
  then show ?thesis by (simp only: bind_db_reached)
qed

lemma ex_bind_alice:
  "handleMicrosoftSsoCallback 1000 ''u9'' alice_profile ''contoso'' None None bind_db
     = (Inr (alice\<lparr>microsoftUserId := Some ''ms-1'', microsoftTenantId := Some ''contoso'',
                  user_lastName := Some ''Example'',
                  lastLoginAt := Some 1000, user_updatedAt := Some 1000\<rparr>),
        bind_db\<lparr>users := [alice\<lparr>microsoftUserId := Some ''ms-1'',
                         microsoftTenantId := Some ''contoso'', user_lastName := Some ''Example'',
                         lastLoginAt := Some 1000, user_updatedAt := Some 1000\<rparr>, frank],
                authAuditLog := authAuditLog bind_db @
                  [\<lparr>ev_userId = Some ''u1'', ev_email = Some ''alice@acme.com'',
                   action = ''sso_login'', provider = Some Microsoft, ipAddress = None,
                   userAgent = None, success = True, failureReason = None,
                   metadata = Some (''contoso'', ''ms-1'')\<rparr>]\<rparr>)"
  by (simp add: handleMicrosoftSsoCallback_def ex_profile_emails getSsoSettings_def
      logAuditEvent_def Let_def bind_db_def)
     (simp add: frank_def alice_def alice_profile_def erin_profile_def js_or_def truthy_def)

lemma ex_bind_frank:
  "handleMicrosoftSsoCallback 1000 ''u9'' frank_profile ''contoso'' None None bind_db
     = (Inr (frank\<lparr>lastLoginAt := Some 1000, user_updatedAt := Some 1000\<rparr>),
        bind_db\<lparr>users := [alice, frank\<lparr>lastLoginAt := Some 1000, user_updatedAt := Some 1000\<rparr>],
                authAuditLog := authAuditLog bind_db @
                  [\<lparr>ev_userId = Some ''u6'', ev_email = Some ''frank@acme.com'',
                   action = ''sso_login'', provider = Some Microsoft, ipAddress = None,
                   userAgent = None, success = True, failureReason = None,
                   metadata = Some (''contoso'', ''ms-6'')\<rparr>]\<rparr>)"
  by (simp add: handleMicrosoftSsoCallback_def ex_profile_emails getSsoSettings_def
      logAuditEvent_def Let_def bind_db_def)
     (simp add: frank_def alice_def frank_profile_def erin_profile_def js_or_def truthy_def)

text \<open>
  C8. Take a store with unique account ids in which every account that has a password
  hash is of local origin, as the writers keep it. When a federated login succeeds on
  an existing account, the account is enabled and its password hash is unchanged. If
  it has a password, its origin was local and stays local. If its origin changes, it
  changes to federated and the account has no password at all.
\<close>

theorem sso_bind_keeps_local_origin:
  assumes "unique_ids d" and "password_implies_local d"
    and "find (\<lambda>u. user_email u = Some (profileEmail p)) (users d) = Some usr"
    and "handleMicrosoftSsoCallback now newId p tenantId ip ua d = (Inr usr', d')"
  shows "\<not> isDisabled usr
         \<and> user_id usr' = user_id usr
         \<and> find (\<lambda>u. user_id u = user_id usr) (users d') = Some usr'
         \<and> passwordHash usr' = passwordHash usr
         \<and> (passwordHash usr \<noteq> None \<longrightarrow> authProvider usr = Local \<and> authProvider usr' = Local)
         \<and> (authProvider usr' \<noteq> authProvider usr \<longrightarrow>
               authProvider usr' = Microsoft \<and> passwordHash usr = None)"
proof -
  have ids: "distinct (map user_id (users d))" using assms(1) by (simp add: unique_ids_def)
  note r = sso_bind_origin_rule [OF ids assms(3,4)]
  have mem: "usr \<in> set (users d)" using find_Some_mem [OF assms(3)] by simp
  have loc: "passwordHash usr \<noteq> None \<Longrightarrow> authProvider usr = Local"
    using assms(2) mem by (auto simp: password_implies_local_def)
  show ?thesis using r loc by (cases "passwordHash usr") (auto split: if_splits)
qed

theorem sso_bind_keeps_local_origin_witness:
  "map_sum id (\<lambda>u. (authProvider u, passwordHash u))
     (fst (handleMicrosoftSsoCallback 1000 ''u9'' alice_profile ''contoso'' None None bind_db))
     = Inr (Local, Some ''h:correct-horse'')
   \<and> map_sum id (\<lambda>u. (authProvider u, passwordHash u))
     (fst (handleMicrosoftSsoCallback 1000 ''u9'' frank_profile ''contoso'' None None bind_db))
     = Inr (Microsoft, None)"
proof -
  have u: "unique_ids bind_db"
    by (simp add: unique_ids_def bind_db_def frank_def alice_def)
  have l: "password_implies_local bind_db"
    by (simp add: password_implies_local_def bind_db_def frank_def alice_def)
  have fa: "find (\<lambda>u. user_email u = Some (profileEmail alice_profile)) (users bind_db) = Some alice"
    by (simp add: ex_profile_emails bind_db_def alice_def)
  have ff: "find (\<lambda>u. user_email u = Some (profileEmail frank_profile)) (users bind_db) = Some frank"
    by (simp add: ex_profile_emails bind_db_def alice_def frank_def)
  have c: "passwordHash alice = Some ''h:correct-horse''" "authProvider frank = Microsoft"
    "passwordHash frank = None"
    by (simp_all add: alice_def frank_def)
  show ?thesis
    using sso_bind_keeps_local_origin [OF u l fa ex_bind_alice]
      sso_bind_keeps_local_origin [OF u l ff ex_bind_frank] c
    by (simp add: ex_bind_alice ex_bind_frank)
qed

lemma ex_domains:
  "emailDomainOf ''bob@other.com'' = Some ''other.com''"
  "emailDomainOf ''alice@acme.com'' = Some ''acme.com''"
  by (simp_all add: emailDomainOf_def)

text \<open>
  C9. The policy allows the e-mail domain \<^verbatim>\<open>acme.com\<close> only, provisions accounts
  automatically and does not exclude the login's tenant. A federated login with the
  address \<^verbatim>\<open>bob@other.com\<close> is refused with the domain error and leaves one
  \<^verbatim>\<open>failed_sso_login\<close> event and nothing else. A federated login with the address
  \<^verbatim>\<open>alice@acme.com\<close>, for which no account exists, succeeds and appends a new
  account of federated origin with a verified e-mail, no password and the fresh id;
  the role bootstrap that the callback route runs next gives that account a CRM profile
  whose role is the policy's default role for federated accounts.
\<close>

theorem sso_domain_policy_scenario:
  assumes "getSsoSettings d = Some s"
    and "allowedEmailDomains s = Some [''acme.com'']"
    and "autoProvisionUsers s"
    and "case allowedTenantIds s of None \<Rightarrow> True | Some ids \<Rightarrow> ids = [] \<or> tenantId \<in> set ids"
    and "defaultRoleForSso s = Some r" and "role_of_string r = Some rl"
    and "mail bob = Some ''bob@other.com''"
    and "mail al = Some ''alice@acme.com''"
    and "find (\<lambda>u. user_email u = Some ''alice@acme.com'') (users d) = None"
    and "find (\<lambda>c. authUserId c = newId) (crmUsers d) = None"
  shows "handleMicrosoftSsoCallback now newId bob tenantId ip ua d
           = (Inl ''Your email domain is not authorized for access'',
              d\<lparr>authAuditLog := authAuditLog d @
                 [\<lparr>ev_userId = None, ev_email = Some ''bob@other.com'',
                   action = ''failed_sso_login'', provider = Some Microsoft, ipAddress = ip,
                   userAgent = ua, success = False,
                   failureReason = Some ''Email domain other.com not in allowed list'',
                   metadata = None\<rparr>]\<rparr>)
         \<and> (case handleMicrosoftSsoCallback now newId al tenantId ip ua d of
               (Inl err, d') \<Rightarrow> False
             | (Inr usr', d') \<Rightarrow>
                 users d' = users d @ [usr']
                 \<and> user_id usr' = newId
                 \<and> user_email usr' = Some ''alice@acme.com''
                 \<and> authProvider usr' = Microsoft
                 \<and> emailVerified usr'
                 \<and> passwordHash usr' = None
                 \<and> \<not> isDisabled usr'
                 \<and> map_option crmUsers (ensureCrmUser usr' d')
                     = Some (crmUsers d @
                         [\<lparr>authUserId = newId, role = rl,
                           crm_firstName = user_firstName usr',
                           crm_lastName = user_lastName usr',
                           crm_email = Some ''alice@acme.com''\<rparr>]))"
proof -
  have eb: "profileEmail bob = ''bob@other.com''"
    using assms(7) by (simp add: profileEmail_def truthy_def ex_lower2)
  have ea: "profileEmail al = ''alice@acme.com''"
    using assms(8) by (simp add: profileEmail_def truthy_def ex_lower2)
  have tn: "\<not> (case allowedTenantIds s of None \<Rightarrow> False
                | Some ids \<Rightarrow> length ids > 0 \<and> tenantId \<notin> set ids)"
    using assms(4) by (auto split: option.splits)
  have rne: "truthy (Some r)"
    using assms(6) by (auto simp: truthy_def role_of_string_def)
  have b: "handleMicrosoftSsoCallback now newId bob tenantId ip ua d
           = (Inl ''Your email domain is not authorized for access'',
              d\<lparr>authAuditLog := authAuditLog d @
                 [\<lparr>ev_userId = None, ev_email = Some ''bob@other.com'',
                   action = ''failed_sso_login'', provider = Some Microsoft, ipAddress = ip,
                   userAgent = ua, success = False,
                   failureReason = Some ''Email domain other.com not in allowed list'',
                   metadata = None\<rparr>]\<rparr>)"
    using tn
    by (simp add: handleMicrosoftSsoCallback_def eb assms(1,2) ex_domains Let_def
        logAuditEvent_def show_undefined_def)
  let ?u = "\<lparr>user_id = newId, user_email = Some ''alice@acme.com'',
              user_firstName = js_or (givenName al) None,
              user_lastName = js_or (surname al) None,
              authProvider = Microsoft, passwordHash = None,
              microsoftUserId = Some (profile_id al),
              microsoftTenantId = Some tenantId, isDisabled = False,
              emailVerified = True, user_createdAt = Some now,
              user_updatedAt = Some now, lastLoginAt = None\<rparr>"
  let ?d = "d\<lparr>users := users d @ [?u],
              authAuditLog := authAuditLog d @
                [\<lparr>ev_userId = Some newId, ev_email = Some ''alice@acme.com'',
                  action = ''sso_login'', provider = Some Microsoft, ipAddress = ip,
                  userAgent = ua, success = True, failureReason = None,
                  metadata = Some (tenantId, profile_id al)\<rparr>]\<rparr>"
  have a: "handleMicrosoftSsoCallback now newId al tenantId ip ua d = (Inr ?u, ?d)"
    using tn assms(3)
    by (simp add: handleMicrosoftSsoCallback_def ea assms(1,2,9) ex_domains Let_def
        logAuditEvent_def)
  have gs: "getSsoSettings ?d = Some s"
    using assms(1) by (simp add: getSsoSettings_def)
  have c: "map_option crmUsers (ensureCrmUser ?u ?d)
             = Some (crmUsers d @
                 [\<lparr>authUserId = newId, role = rl,
                   crm_firstName = user_firstName ?u,
                   crm_lastName = user_lastName ?u,
                   crm_email = Some ''alice@acme.com''\<rparr>])"
    using rne by (simp add: ensureCrmUser_def assms(5,6,10) gs)
  show ?thesis
    using c by (simp add: a b)
qed

theorem sso_domain_policy_scenario_witness:
  "fst (handleMicrosoftSsoCallback 1000 ''u9'' bob_profile ''contoso'' None None policy_db)
     = Inl ''Your email domain is not authorized for access''
   \<and> map (\<lambda>e. (action e, failureReason e))
        (authAuditLog
          (snd (handleMicrosoftSsoCallback 1000 ''u9'' bob_profile ''contoso'' None None policy_db)))
     = [(''failed_sso_login'', Some ''Email domain other.com not in allowed list'')]
   \<and> map_sum id (\<lambda>u. (user_id u, user_email u, authProvider u, emailVerified u))
        (fst (handleMicrosoftSsoCallback 1000 ''u9'' alice_profile ''contoso'' None None policy_db))
     = Inr (''u9'', Some ''alice@acme.com'', Microsoft, True)
   \<and> (case handleMicrosoftSsoCallback 1000 ''u9'' alice_profile ''contoso'' None None policy_db of
         (Inl err, d') \<Rightarrow> None
       | (Inr usr', d') \<Rightarrow> map_option (map role \<circ> crmUsers) (ensureCrmUser usr' d'))
     = Some [Manager]"
proof -
  have h1: "getSsoSettings policy_db = Some policy"
    by (simp add: getSsoSettings_def policy_db_def)
  have h2: "allowedEmailDomains policy = Some [''acme.com'']"
    and h3: "autoProvisionUsers policy"
    and h4: "case allowedTenantIds policy of None \<Rightarrow> True
             | Some ids \<Rightarrow> ids = [] \<or> ''contoso'' \<in> set ids"
    and h5: "defaultRoleForSso policy = Some ''manager''"
    by (simp_all add: policy_def)
  have h6: "role_of_string ''manager'' = Some Manager"
    by (simp add: role_of_string_def)
  have h7: "mail bob_profile = Some ''bob@other.com''"
    and h8: "mail alice_profile = Some ''alice@acme.com''"
    by (simp_all add: bob_profile_def alice_profile_def)
  have h9: "find (\<lambda>u. user_email u = Some ''alice@acme.com'') (users policy_db) = None"
    by (simp add: policy_db_def carol_def alice_def)
  have h10: "find (\<lambda>c. authUserId c = ''u9'') (crmUsers policy_db) = None"
    by (simp add: policy_db_def)
  have e: "crmUsers policy_db = []" "authAuditLog policy_db = []"
    by (simp_all add: policy_db_def)
  show ?thesis
    using sso_domain_policy_scenario [OF h1 h2 h3 h4 h5 h6 h7 h8 h9 h10,
        where now = 1000 and ip = None and ua = None]
    by (auto simp: e split: prod.splits sum.splits)
qed

subsection \<open>ID token verification\<close>








end
